theory Spec2Isabelle
  imports Complex_Main
begin

section \<open>Input listener: the shared opponent counter\<close>

text \<open>
  \<^verbatim>\<open>keyboard_listener\<close> reads one key with \<^verbatim>\<open>readchar.readkey()\<close> per turn of its
  loop and compares it with \<^verbatim>\<open>readchar.key.UP\<close> and \<^verbatim>\<open>readchar.key.DOWN\<close>. A key is
  therefore one of the two arrow keys or any other key sequence. The module-level
  \<^verbatim>\<open>opponents\<close> is a Python int and starts at 1.
\<close>

datatype key = UP | DOWN | OtherKey string

definition opponents_init :: int where
  "opponents_init = 1"

text \<open>One turn of the \<^verbatim>\<open>while running\<close> loop: the \<^verbatim>\<open>if\<close>/\<^verbatim>\<open>elif\<close> on the key read.\<close>

definition key_step :: "int \<Rightarrow> key \<Rightarrow> int" where
  "key_step n k =
     (if k = UP \<and> n < 9 then n + 1
      else if k = DOWN \<and> n > 1 then n - 1
      else n)"

text \<open>
  The listener on the finite sequence of keys it has read so far; \<^verbatim>\<open>running\<close> is never
  cleared by the program, so the loop body runs once for every key.
\<close>

fun keyboard_listener :: "int \<Rightarrow> key list \<Rightarrow> int" where
  "keyboard_listener n [] = n"
| "keyboard_listener n (k # ks) = keyboard_listener (key_step n k) ks"


section \<open>Python strings and numbers used by the program\<close>

text \<open>
  A \<^typ>\<open>string\<close> stands for a Python \<^verbatim>\<open>str\<close> whose code points are below 256, one
  \<^typ>\<open>char\<close> per code point. \<^verbatim>\<open>str.isspace\<close> holds on these code points for
  9 to 13, 28 to 32, 133 and 160.
\<close>

definition is_space :: "char \<Rightarrow> bool" where
  "is_space c =
     (let n = (of_char c :: nat)
      in (9 \<le> n \<and> n \<le> 13) \<or> (28 \<le> n \<and> n \<le> 32) \<or> n = 133 \<or> n = 160)"

text \<open>\<^verbatim>\<open>s.strip()\<close>\<close>

definition strip :: "string \<Rightarrow> string" where
  "strip s = rev (dropWhile is_space (rev (dropWhile is_space s)))"

text \<open>\<^verbatim>\<open>s.split(c)\<close> for a one-character separator: never an empty list.\<close>

fun split_acc :: "char \<Rightarrow> string \<Rightarrow> string \<Rightarrow> string list" where
  "split_acc c cur [] = [rev cur]"
| "split_acc c cur (a # as) =
     (if a = c then rev cur # split_acc c [] as else split_acc c (a # cur) as)"

definition split_on :: "char \<Rightarrow> string \<Rightarrow> string list" where
  "split_on c s = split_acc c [] s"

text \<open>
  \<^verbatim>\<open>s.split(None, maxsplit)\<close>: runs of whitespace separate the words; once
  \<^verbatim>\<open>maxsplit\<close> words are cut, what is left (leading whitespace skipped, trailing
  whitespace kept) is the last part.
\<close>

fun split_ws :: "nat \<Rightarrow> string \<Rightarrow> string list" where
  "split_ws 0 s =
     (let r = dropWhile is_space s in if r = [] then [] else [r])"
| "split_ws (Suc n) s =
     (let r = dropWhile is_space s
      in if r = [] then []
         else takeWhile (\<lambda>c. \<not> is_space c) r
              # split_ws n (dropWhile (\<lambda>c. \<not> is_space c) r))"

text \<open>\<^verbatim>\<open>sep.join(parts)\<close>\<close>

fun join :: "string \<Rightarrow> string list \<Rightarrow> string" where
  "join sep [] = []"
| "join sep [p] = p"
| "join sep (p # q # ps) = p @ sep @ join sep (q # ps)"

definition is_digit :: "char \<Rightarrow> bool" where
  "is_digit c = (let n = (of_char c :: nat) in 48 \<le> n \<and> n \<le> 57)"

definition digit_value :: "char \<Rightarrow> nat" where
  "digit_value c = of_char c - 48"

text \<open>
  The digits of a decimal literal after its first digit has been seen: digits, each
  optionally preceded by one underscore.
\<close>

fun parse_digits :: "nat \<Rightarrow> string \<Rightarrow> nat option" where
  "parse_digits acc [] = Some acc"
| "parse_digits acc [c] =
     (if is_digit c then Some (10 * acc + digit_value c) else None)"
| "parse_digits acc (c # d # cs) =
     (if is_digit c then parse_digits (10 * acc + digit_value c) (d # cs)
      else if c = CHR ''_'' \<and> is_digit d then parse_digits acc (d # cs)
      else None)"

text \<open>
  \<^verbatim>\<open>int(s)\<close> on a string. The whitespace \<^verbatim>\<open>int\<close> drops around the literal is not that
  of \<^verbatim>\<open>str.strip\<close>: of the code points below 256 it is 9 to 13, 32, 133 and 160, and
  not 28 to 31. Then come an optional sign and a decimal literal; \<^const>\<open>None\<close> is the
  \<^verbatim>\<open>ValueError\<close>. (The interpreter's limit on the number of digits is not modelled.)
\<close>

definition is_int_space :: "char \<Rightarrow> bool" where
  "is_int_space c =
     (let n = (of_char c :: nat)
      in (9 \<le> n \<and> n \<le> 13) \<or> n = 32 \<or> n = 133 \<or> n = 160)"

definition py_int :: "string \<Rightarrow> int option" where
  "py_int s =
     (let t = rev (dropWhile is_int_space (rev (dropWhile is_int_space s)));
          neg = (case t of [] \<Rightarrow> False | c # r \<Rightarrow> c = CHR ''-'');
          u = (case t of [] \<Rightarrow> []
               | c # r \<Rightarrow> if c = CHR ''-'' \<or> c = CHR ''+'' then r else t)
      in case u of
           [] \<Rightarrow> None
         | c # r \<Rightarrow>
             if is_digit c
             then map_option (\<lambda>n. if neg then - int n else int n) (parse_digits 0 u)
             else None)"

text \<open>\<^verbatim>\<open>str(n)\<close> on an int.\<close>

fun str_nat :: "nat \<Rightarrow> string" where
  "str_nat n =
     (if n < 10 then [char_of (48 + n)]
      else str_nat (n div 10) @ [char_of (48 + n mod 10)])"

declare str_nat.simps [simp del]

definition str_int :: "int \<Rightarrow> string" where
  "str_int i = (if i < 0 then CHR ''-'' # str_nat (nat (- i)) else str_nat (nat i))"

text \<open>\<^verbatim>\<open>int(v)\<close> on a float: truncation towards zero. Floats are read as reals.\<close>

definition int_of_float :: "real \<Rightarrow> int" where
  "int_of_float r = (if r \<ge> 0 then \<lfloor>r\<rfloor> else \<lceil>r\<rceil>)"

section \<open>Decoded JSON values\<close>

text \<open>
  What \<^verbatim>\<open>response.json()\<close> returns: \<^verbatim>\<open>None\<close>, a bool, an int, a float (read as a
  real), a str, a list or a dict. A dict is an association list read with
  \<^const>\<open>map_of\<close>, so a key has the value of its first binding.
\<close>

datatype json =
    JNull
  | JBool bool
  | JInt int
  | JFloat real
  | JStr string
  | JList "json list"
  | JDict "(string \<times> json) list"

text \<open>Python's truth value of a decoded value (\<^verbatim>\<open>not v\<close>, \<^verbatim>\<open>a or b\<close>).\<close>

fun truthy :: "json \<Rightarrow> bool" where
  "truthy JNull = False"
| "truthy (JBool b) = b"
| "truthy (JInt n) = (n \<noteq> 0)"
| "truthy (JFloat r) = (r \<noteq> 0)"
| "truthy (JStr s) = (s \<noteq> [])"
| "truthy (JList vs) = (vs \<noteq> [])"
| "truthy (JDict kvs) = (kvs \<noteq> [])"

text \<open>
  The exceptions the program distinguishes, each with its \<^verbatim>\<open>str(e)\<close>:
  \<^verbatim>\<open>requests.exceptions.Timeout\<close>, any other \<^verbatim>\<open>requests.exceptions.RequestException\<close>, and
  any other \<^verbatim>\<open>Exception\<close>.
\<close>

datatype exn = Timeout string | RequestException string | Exception string

fun type_name :: "json \<Rightarrow> string" where
  "type_name JNull = ''NoneType''"
| "type_name (JBool b) = ''bool''"
| "type_name (JInt n) = ''int''"
| "type_name (JFloat r) = ''float''"
| "type_name (JStr s) = ''str''"
| "type_name (JList vs) = ''list''"
| "type_name (JDict kvs) = ''dict''"

text \<open>The \<^verbatim>\<open>AttributeError\<close> of \<^verbatim>\<open>v.get\<close> on a value that is not a dict.\<close>

definition no_get :: "json \<Rightarrow> exn" where
  "no_get v = Exception ([CHR 0x27] @ type_name v @ [CHR 0x27]
                 @ '' object has no attribute '' @ [CHR 0x27] @ ''get'' @ [CHR 0x27])"

text \<open>\<^verbatim>\<open>d.get(k, default)\<close> on a dict.\<close>

definition dict_get :: "(string \<times> json) list \<Rightarrow> string \<Rightarrow> json \<Rightarrow> json" where
  "dict_get d k dflt = (case map_of d k of None \<Rightarrow> dflt | Some v \<Rightarrow> v)"

text \<open>\<^verbatim>\<open>v.get(k, default)\<close> on any decoded value.\<close>

fun py_get :: "json \<Rightarrow> string \<Rightarrow> json \<Rightarrow> exn + json" where
  "py_get (JDict d) k dflt = Inr (dict_get d k dflt)"
| "py_get v k dflt = Inl (no_get v)"

section \<open>Analysis results\<close>

text \<open>
  The dataclass \<^verbatim>\<open>PokerAnalysis\<close>. Its annotations are not enforced: apart from
  \<^verbatim>\<open>success\<close>, every field holds whatever value the constructor call was given, so
  the fields are decoded JSON values; \<^const>\<open>JNull\<close> is \<^verbatim>\<open>None\<close>.
\<close>

record PokerAnalysis =
  success :: bool
  hole_cards :: json
  community_cards :: json
  opponents :: json
  win_rate :: json
  lose_rate :: json
  tie_rate :: json
  our_hand_probabilities :: json
  opponent_hand_probabilities :: json
  error_message :: json

definition from_error :: "json \<Rightarrow> PokerAnalysis" where
  "from_error message =
     \<lparr> success = False,
       hole_cards = JList [],
       community_cards = JList [],
       opponents = JInt 0,
       win_rate = JInt 0, lose_rate = JInt 0, tie_rate = JInt 0,
       our_hand_probabilities = JDict [],
       opponent_hand_probabilities = JDict [],
       error_message = message \<rparr>"

text \<open>
  \<^verbatim>\<open>from_api_response\<close>; \<^const>\<open>Inl\<close> is the exception it raises. In the success branch
  every field is read with \<^verbatim>\<open>result.get\<close>, so the first of these reads raises when
  \<^verbatim>\<open>result\<close> is not a dict and none raises when it is.
\<close>

definition from_api_response :: "json \<Rightarrow> exn + PokerAnalysis" where
  "from_api_response data =
     (case py_get data ''success'' (JBool False) of
        Inl e \<Rightarrow> Inl e
      | Inr s \<Rightarrow>
          if \<not> truthy s
          then (case py_get data ''error'' (JStr ''Unknown API error'') of
                  Inl e \<Rightarrow> Inl e
                | Inr m \<Rightarrow> Inr (from_error m))
          else (case py_get data ''data'' (JDict []) of
                  Inl e \<Rightarrow> Inl e
                | Inr (JDict r) \<Rightarrow>
                    Inr \<lparr> success = True,
                          hole_cards = dict_get r ''hole_cards'' (JList []),
                          community_cards = dict_get r ''community_cards'' (JList []),
                          opponents = dict_get r ''opponents'' (JInt 0),
                          win_rate = dict_get r ''win_rate'' (JInt 0),
                          lose_rate = dict_get r ''lose_rate'' (JInt 0),
                          tie_rate = dict_get r ''tie_rate'' (JInt 0),
                          our_hand_probabilities =
                            dict_get r ''our_hand_probabilities'' (JDict []),
                          opponent_hand_probabilities =
                            dict_get r ''opponent_hand_probabilities'' (JDict []),
                          error_message = JNull \<rparr>
                | Inr result \<Rightarrow> Inl (no_get result)))"

section \<open>The analysis client\<close>

text \<open>
  A captured image: its size and its pixel data. The HTTP exchange is a simulated
  service: \<^verbatim>\<open>image.save\<close> may raise, \<^verbatim>\<open>requests.post\<close> raises or returns a response, and
  \<^verbatim>\<open>response.json()\<close> raises or returns a decoded value.
\<close>

record image =
  im_width :: nat
  im_height :: nat
  im_pixels :: "nat list"

record response =
  status_code :: int
  body :: "exn + json"

record request =
  req_license_key :: string
  req_image :: image
  req_quality :: int
  req_opponents :: string

record service =
  save_raises :: "image \<Rightarrow> int \<Rightarrow> exn option"
  post :: "request \<Rightarrow> exn + response"

text \<open>The three \<^verbatim>\<open>except\<close> clauses of \<^verbatim>\<open>analyze_screenshot\<close>, in their order.\<close>

fun handle_exn :: "exn \<Rightarrow> PokerAnalysis" where
  "handle_exn (Timeout m) = from_error (JStr ''API request timed out'')"
| "handle_exn (RequestException m) = from_error (JStr (''Network error: '' @ m))"
| "handle_exn (Exception m) = from_error (JStr (''Error: '' @ m))"

text \<open>
  The message of a response whose status is not 200. \<^verbatim>\<open>str_py\<close> is Python's \<^verbatim>\<open>str\<close> on
  a decoded value that is not a string; any exception inside the inner \<^verbatim>\<open>try\<close>
  (\<^verbatim>\<open>response.json()\<close> raising, or \<^verbatim>\<open>.get\<close> on a body that is not a dict) gives the
  message of its \<^verbatim>\<open>except\<close> clause.
\<close>

definition error_msg_of :: "(json \<Rightarrow> string) \<Rightarrow> response \<Rightarrow> string" where
  "error_msg_of str_py r =
     (let fallback = ''API returned status '' @ str_int (status_code r)
      in case body r of
           Inl e \<Rightarrow> fallback
         | Inr (JDict error_data) \<Rightarrow>
             (let a = dict_get error_data ''error'' JNull;
                  b = dict_get error_data ''message'' JNull;
                  error_msg =
                    (if truthy a then a
                     else if truthy b then b
                     else JStr (''Status '' @ str_int (status_code r)))
              in case error_msg of JStr s \<Rightarrow> s | v \<Rightarrow> str_py v)
         | Inr v \<Rightarrow> fallback)"

definition analyze_screenshot ::
  "(json \<Rightarrow> string) \<Rightarrow> service \<Rightarrow> image \<Rightarrow> int \<Rightarrow> string \<Rightarrow> int \<Rightarrow> PokerAnalysis" where
  "analyze_screenshot str_py srv img opps license_key image_quality =
     (case save_raises srv img image_quality of
        Some e \<Rightarrow> handle_exn e
      | None \<Rightarrow>
          (case post srv \<lparr> req_license_key = license_key, req_image = img,
                           req_quality = image_quality,
                           req_opponents = str_int opps \<rparr> of
             Inl e \<Rightarrow> handle_exn e
           | Inr r \<Rightarrow>
               if status_code r \<noteq> 200
               then from_error (JStr (error_msg_of str_py r))
               else (case body r of
                       Inl e \<Rightarrow> handle_exn e
                     | Inr data \<Rightarrow>
                         (case from_api_response data of
                            Inl e \<Rightarrow> handle_exn e
                          | Inr a \<Rightarrow> a))))"

section \<open>Windows\<close>

record WindowInfo =
  w_id :: string
  w_title :: string
  w_x :: int
  w_y :: int
  w_width :: int
  w_height :: int

subsection \<open>macOS: enumeration\<close>

text \<open>
  An entry of \<^verbatim>\<open>CGWindowListCopyWindowInfo\<close>: a dictionary in which each of the keys the
  program reads may be missing. The bounds are floats.
\<close>

record cg_bounds =
  b_X :: "real option"
  b_Y :: "real option"
  b_Width :: "real option"
  b_Height :: "real option"

record cg_window =
  kCGWindowName :: "string option"
  kCGWindowOwnerName :: "string option"
  kCGWindowBounds :: "cg_bounds option"
  kCGWindowNumber :: "int option"

text \<open>\<^verbatim>\<open>int(bounds.get(key, 0))\<close>\<close>

definition bound_int :: "real option \<Rightarrow> int" where
  "bound_int v = (case v of None \<Rightarrow> 0 | Some r \<Rightarrow> int_of_float r)"

text \<open>The body of the \<^verbatim>\<open>for win in window_list\<close> loop: the window appended, if any.\<close>

definition mac_window :: "cg_window \<Rightarrow> WindowInfo option" where
  "mac_window win =
     (let name = (case kCGWindowName win of None \<Rightarrow> [] | Some s \<Rightarrow> s);
          owner = (case kCGWindowOwnerName win of None \<Rightarrow> [] | Some s \<Rightarrow> s)
      in if name = [] \<and> owner = [] then None
         else
           let bounds = (case kCGWindowBounds win of
                           None \<Rightarrow> \<lparr> b_X = None, b_Y = None, b_Width = None, b_Height = None \<rparr>
                         | Some b \<Rightarrow> b);
               width = bound_int (b_Width bounds);
               height = bound_int (b_Height bounds)
           in if width < 100 \<or> height < 100 then None
              else
                let window_id = (case kCGWindowNumber win of None \<Rightarrow> 0 | Some n \<Rightarrow> n)
                in Some \<lparr> w_id = str_int window_id,
                          w_title = (if name \<noteq> [] then owner @ '': '' @ name else owner),
                          w_x = bound_int (b_X bounds),
                          w_y = bound_int (b_Y bounds),
                          w_width = width,
                          w_height = height \<rparr>)"

text \<open>
  \<^verbatim>\<open>MacWindowManager.get_windows\<close> once \<^verbatim>\<open>import Quartz\<close> has succeeded (the
  \<^verbatim>\<open>ImportError\<close> branch ends the process and is part of the start-up model below).
\<close>

definition mac_get_windows :: "cg_window list \<Rightarrow> WindowInfo list" where
  "mac_get_windows window_list = List.map_filter mac_window window_list"

subsection \<open>Linux: enumeration\<close>

text \<open>One line of the output of \<^verbatim>\<open>wmctrl -l -G\<close>: the window appended, if any.\<close>

definition wmctrl_line :: "string \<Rightarrow> WindowInfo option" where
  "wmctrl_line line =
     (if line = [] then None
      else
        let parts = split_ws 8 line
        in if length parts \<ge> 8
           then (case parts of
                   wid # desktop # x # y # w # h # hostname # title_parts \<Rightarrow>
                     let title = (if title_parts \<noteq> [] then join '' '' title_parts
                                  else ''(unnamed)'')
                     in if desktop = ''-1'' \<or> strip title = [] then None
                        else (case (py_int x, py_int y, py_int w, py_int h) of
                                (Some xi, Some yi, Some wi, Some hi) \<Rightarrow>
                                  Some \<lparr> w_id = wid, w_title = title,
                                         w_x = xi, w_y = yi, w_width = wi, w_height = hi \<rparr>
                              | _ \<Rightarrow> None)
                 | _ \<Rightarrow> None)
           else None)"

text \<open>
  \<^verbatim>\<open>LinuxWindowManager.get_windows\<close> for the detected tool and the standard output of
  \<^verbatim>\<open>wmctrl -l -G\<close>. With \<^verbatim>\<open>xdotool\<close> nothing is enumerated.
\<close>

definition linux_get_windows :: "string \<Rightarrow> string \<Rightarrow> WindowInfo list" where
  "linux_get_windows tool stdout =
     (if tool = ''wmctrl''
      then List.map_filter wmctrl_line (split_on (CHR 0x0A) (strip stdout))
      else [])"

section \<open>Capture\<close>

text \<open>
  What the program does to the outside is kept in a \<open>world\<close>: the files it has
  created that still exist, and the sequence of events so far. \<open>Enter s\<close> records that
  control has reached the code of strategy \<open>s\<close>; the other events are calls: a
  subprocess started, a screen region grabbed, a sleep, a display update, a line printed,
  the keyboard thread started.
\<close>

datatype strategy = ImportTool | Scrot | MssRegion | QuartzNative | BoundsRegion

datatype event =
    Enter strategy
  | Run "string list"
  | Grab int int int int
  | Sleep real
  | Render PokerAnalysis string int int
  | Print string
  | StartListener

record world =
  files :: "string set"
  events :: "event list"

definition emit :: "event \<Rightarrow> world \<Rightarrow> world" where
  "emit ev w = w \<lparr> events := events w @ [ev] \<rparr>"

definition unlink :: "string \<Rightarrow> world \<Rightarrow> world" where
  "unlink path w = w \<lparr> files := files w - {path} \<rparr>"

text \<open>\<^verbatim>\<open>subprocess.run(..., timeout=10)\<close> and \<^verbatim>\<open>subprocess.run(..., check=True)\<close>.\<close>

datatype timed_run = Completed int | TimeoutExpired | FileNotFoundError

datatype checked_run = RunOk | CalledProcessError | FileNotFound

text \<open>
  The simulated platform of one capture attempt. For a helper tool: the name
  \<^verbatim>\<open>NamedTemporaryFile\<close> creates (\<^const>\<open>None\<close> when it raises), how the tool's process ends,
  whether the tool has removed the file when it ends, and the image \<^verbatim>\<open>Image.open\<close> and
  \<^verbatim>\<open>img.load\<close> decode (\<^const>\<open>None\<close> when they raise). For the screen: whether
  \<^verbatim>\<open>mss.mss()\<close> opens, the size of \<^verbatim>\<open>monitors[0]\<close>, and the image a grab of (left, top,
  width, height) gives (\<^const>\<open>None\<close> when the grab or the conversion raises). For Quartz:
  whether the import succeeds and what \<^verbatim>\<open>CGWindowListCreateImage\<close> gives for a window
  number: no image, or an image whose conversion succeeds or raises.
\<close>

record tool_env =
  tmp_name :: "string option"
  tool_run :: timed_run
  tool_removes_tmp :: bool
  decoded :: "image option"

datatype quartz_result = NullImage | CGImage "image option"

record platform =
  import_env :: tool_env
  focus_run :: checked_run
  scrot_env :: tool_env
  mss_opens :: bool
  screen_size :: "int \<times> int"
  mss_grab :: "int \<Rightarrow> int \<Rightarrow> int \<Rightarrow> int \<Rightarrow> image option"
  quartz_import :: bool
  quartz_image :: "int \<Rightarrow> quartz_result"

subsection \<open>Linux\<close>

text \<open>
  The common body of methods 1 and 2 from \<^verbatim>\<open>NamedTemporaryFile\<close> on. Every exception
  leaves the \<^verbatim>\<open>try\<close> through \<^verbatim>\<open>except ...: pass\<close>, which touches nothing.
\<close>

definition helper_tool :: "string list \<Rightarrow> tool_env \<Rightarrow> world \<Rightarrow> image option \<times> world" where
  "helper_tool argv e w =
     (case tmp_name e of
        None \<Rightarrow> (None, w)
      | Some tmp_path \<Rightarrow>
          (let w1 = emit (Run (argv @ [tmp_path])) (w \<lparr> files := insert tmp_path (files w) \<rparr>)
           in (case tool_run e of
                 FileNotFoundError \<Rightarrow> (None, w1)
               | TimeoutExpired \<Rightarrow>
                   (None, if tool_removes_tmp e then unlink tmp_path w1 else w1)
               | Completed returncode \<Rightarrow>
                   (let w2 = (if tool_removes_tmp e then unlink tmp_path w1 else w1)
                    in if returncode = 0 \<and> tmp_path \<in> files w2
                       then (case decoded e of
                               None \<Rightarrow> (None, w2)
                             | Some img \<Rightarrow> (Some img, unlink tmp_path w2))
                       else if tmp_path \<in> files w2 then (None, unlink tmp_path w2)
                       else (None, w2)))))"

text \<open>\<^verbatim>\<open>LinuxWindowManager.focus_window\<close>: the command it runs.\<close>

definition focus_argv :: "string \<Rightarrow> WindowInfo \<Rightarrow> string list" where
  "focus_argv tool window =
     (if tool = ''wmctrl'' then [''wmctrl'', ''-i'', ''-a'', w_id window]
      else [''xdotool'', ''windowactivate'', w_id window])"

definition method_import :: "platform \<Rightarrow> WindowInfo \<Rightarrow> world \<Rightarrow> image option \<times> world" where
  "method_import p window w =
     helper_tool [''import'', ''-window'', w_id window] (import_env p) (emit (Enter ImportTool) w)"

definition method_scrot ::
  "string \<Rightarrow> platform \<Rightarrow> WindowInfo \<Rightarrow> world \<Rightarrow> image option \<times> world" where
  "method_scrot tool p window w =
     (let w1 = emit (Run (focus_argv tool window)) (emit (Enter Scrot) w)
      in case focus_run p of
           FileNotFound \<Rightarrow> (None, w1)
         | _ \<Rightarrow> helper_tool [''scrot'', ''-u''] (scrot_env p) (emit (Sleep (2 / 10)) w1))"

definition method_mss :: "platform \<Rightarrow> WindowInfo \<Rightarrow> world \<Rightarrow> image option \<times> world" where
  "method_mss p window w =
     (let w1 = emit (Enter MssRegion) w
      in if \<not> mss_opens p then (None, w1)
         else
           let x = max 0 (w_x window);
               y = max 0 (w_y window);
               width = min (w_width window) (fst (screen_size p) - x);
               height = min (w_height window) (snd (screen_size p) - y)
           in if width \<le> 0 \<or> height \<le> 0 then (None, w1)
              else (mss_grab p x y width height, emit (Grab x y width height) w1))"

definition linux_capture_window ::
  "string \<Rightarrow> platform \<Rightarrow> WindowInfo \<Rightarrow> world \<Rightarrow> image option \<times> world" where
  "linux_capture_window tool p window w =
     (case method_import p window w of
        (Some img, w1) \<Rightarrow> (Some img, w1)
      | (None, w1) \<Rightarrow>
          (case method_scrot tool p window w1 of
             (Some img, w2) \<Rightarrow> (Some img, w2)
           | (None, w2) \<Rightarrow> method_mss p window w2))"

subsection \<open>macOS\<close>

definition capture_by_bounds :: "platform \<Rightarrow> WindowInfo \<Rightarrow> world \<Rightarrow> image option \<times> world" where
  "capture_by_bounds p window w =
     (let w1 = emit (Enter BoundsRegion) w
      in if \<not> mss_opens p then (None, w1)
         else (mss_grab p (w_x window) (w_y window) (w_width window) (w_height window),
               emit (Grab (w_x window) (w_y window) (w_width window) (w_height window)) w1))"

text \<open>
  \<^verbatim>\<open>MacWindowManager.capture_window\<close>: a failed import, a window id that \<^verbatim>\<open>int\<close> rejects
  and a failed conversion all raise inside the \<^verbatim>\<open>try\<close> and reach the bounds capture
  through \<^verbatim>\<open>except Exception\<close>; a null image reaches it directly.
\<close>

definition mac_capture_window :: "platform \<Rightarrow> WindowInfo \<Rightarrow> world \<Rightarrow> image option \<times> world" where
  "mac_capture_window p window w =
     (let w1 = emit (Enter QuartzNative) w
      in if \<not> quartz_import p then capture_by_bounds p window w1
         else (case py_int (w_id window) of
                 None \<Rightarrow> capture_by_bounds p window w1
               | Some window_id \<Rightarrow>
                   (case quartz_image p window_id of
                      NullImage \<Rightarrow> capture_by_bounds p window w1
                    | CGImage None \<Rightarrow> capture_by_bounds p window w1
                    | CGImage (Some img) \<Rightarrow> (Some img, w1))))"

subsection \<open>The manager selected for the platform\<close>

datatype window_manager = MacWindowManager | LinuxWindowManager string

fun capture_window ::
  "window_manager \<Rightarrow> platform \<Rightarrow> WindowInfo \<Rightarrow> world \<Rightarrow> image option \<times> world" where
  "capture_window MacWindowManager p window w = mac_capture_window p window w"
| "capture_window (LinuxWindowManager tool) p window w = linux_capture_window tool p window w"

section \<open>The scan loop\<close>

text \<open>
  What one turn of the \<^verbatim>\<open>while True\<close> loop meets: the two readings of \<^verbatim>\<open>time.time()\<close>,
  the platform and the service of this turn, and the value of the shared \<^verbatim>\<open>opponents\<close>
  when it is read for the request and when it is read for the display.
\<close>

record tick_env =
  loop_start :: real
  loop_end :: real
  tick_platform :: platform
  tick_service :: service
  opponents_sent :: int
  opponents_shown :: int

record scan_state =
  iteration :: int
  last_analysis :: PokerAnalysis
  outside :: world

definition sleep_time :: "real \<Rightarrow> real \<Rightarrow> real" where
  "sleep_time scan_interval elapsed = max 0 (scan_interval - elapsed)"

subsection \<open>Building the display\<close>

text \<open>
  \<^verbatim>\<open>build_display\<close> and the functions it calls build objects of the terminal library
  from the fields of the analysis, whatever values these hold. What matters to the loop
  is whether this raises; each function below gives the class of the exception it
  raises, or \<^const>\<open>None\<close> when it returns. Three facts of Python and of the library are
  used: the library's \<^verbatim>\<open>Text(x)\<close> calls a string method on \<open>x\<close> and so raises
  \<^verbatim>\<open>AttributeError\<close> unless \<open>x\<close> is a str; \<^verbatim>\<open>len\<close>, iteration, slicing, \<^verbatim>\<open>*\<close>, \<^verbatim>\<open>int\<close> and
  the format \<^verbatim>\<open>.1f\<close> raise on the values that do not support them; and a bool counts as
  a number. The repeated strings of the bars are taken to fit in memory.
  \<^verbatim>\<open>create_status_bar\<close> never raises. \<^verbatim>\<open>WinRateDisplay\<close> only stores its arguments, and
  \<^verbatim>\<open>live.update\<close> only stores the display: the library draws it from its own refresh
  thread.
\<close>

definition POKER_HANDS :: "string list" where
  "POKER_HANDS =
     [''Straight Flush'', ''Four of a Kind'', ''Full House'', ''Flush'', ''Straight'',
      ''Three of a Kind'', ''Two Pair'', ''One Pair'', ''High Card'']"

text \<open>The keys of a dict in their order, each once.\<close>

fun dict_keys :: "(string \<times> json) list \<Rightarrow> string list" where
  "dict_keys [] = []"
| "dict_keys ((k, v) # kvs) = k # filter (\<lambda>k'. k' \<noteq> k) (dict_keys kvs)"

text \<open>What \<^verbatim>\<open>for card in cards\<close> yields; \<^const>\<open>None\<close> is the \<^verbatim>\<open>TypeError\<close>.\<close>

fun py_iter :: "json \<Rightarrow> json list option" where
  "py_iter (JList vs) = Some vs"
| "py_iter (JStr s) = Some (map (\<lambda>c. JStr [c]) s)"
| "py_iter (JDict kvs) = Some (map JStr (dict_keys kvs))"
| "py_iter v = None"

text \<open>The first exception among the steps of a sequence.\<close>

fun first_raise :: "string option list \<Rightarrow> string option" where
  "first_raise [] = None"
| "first_raise (None # rs) = first_raise rs"
| "first_raise (Some x # rs) = Some x"

text \<open>
  \<^verbatim>\<open>create_card_art\<close>: the number of lines it returns, one for a card shorter than two
  characters and five otherwise. A list raises at \<^verbatim>\<open>Text(card)\<close> or at \<^verbatim>\<open>.upper()\<close>, a dict
  at \<^verbatim>\<open>Text(card)\<close> or at the slice (\<^verbatim>\<open>TypeError\<close>; \<^verbatim>\<open>KeyError\<close> from Python 3.12), any
  other value at \<^verbatim>\<open>len\<close>.
\<close>

fun create_card_art :: "json \<Rightarrow> string + nat" where
  "create_card_art (JStr s) = Inr (if length s < 2 then 1 else 5)"
| "create_card_art (JList vs) = Inl ''AttributeError''"
| "create_card_art (JDict kvs) =
     (if length (dict_keys kvs) < 2 then Inl ''AttributeError'' else Inl ''TypeError'')"
| "create_card_art v = Inl ''TypeError''"

text \<open>The list comprehension over the cards: the first card that raises ends it.\<close>

fun card_arts :: "json list \<Rightarrow> string + nat list" where
  "card_arts [] = Inr []"
| "card_arts (a_card # cards) =
     (case create_card_art a_card of
        Inl x \<Rightarrow> Inl x
      | Inr n \<Rightarrow> (case card_arts cards of Inl x \<Rightarrow> Inl x | Inr ns \<Rightarrow> Inr (n # ns)))"

text \<open>
  \<^verbatim>\<open>format_cards\<close>: the lines are counted on the first card, and \<^verbatim>\<open>art[line_idx]\<close> raises
  \<^verbatim>\<open>IndexError\<close> on a card with fewer lines.
\<close>

definition format_cards :: "json \<Rightarrow> string option" where
  "format_cards cards =
     (if \<not> truthy cards then None
      else (case py_iter cards of
              None \<Rightarrow> Some ''TypeError''
            | Some items \<Rightarrow>
                (case card_arts items of
                   Inl x \<Rightarrow> Some x
                 | Inr [] \<Rightarrow> Some ''IndexError''
                 | Inr (num_lines # arts) \<Rightarrow>
                     if list_ex (\<lambda>n. n < num_lines) arts then Some ''IndexError''
                     else None)))"

text \<open>
  One row of \<^verbatim>\<open>create_hand_probabilities_table\<close>, step by step for a probability:
  \<^verbatim>\<open>prob * 100\<close>, \<^verbatim>\<open>int(prob * bar_width)\<close> and the format \<^verbatim>\<open>.1f\<close> of the percentage.
\<close>

fun times_raises :: "json \<Rightarrow> string option" where
  "times_raises JNull = Some ''TypeError''"
| "times_raises (JDict kvs) = Some ''TypeError''"
| "times_raises v = None"

fun int_raises :: "json \<Rightarrow> string option" where
  "int_raises (JStr s) =
     (if py_int (concat (replicate 18 s)) = None then Some ''ValueError'' else None)"
| "int_raises (JList vs) = Some ''TypeError''"
| "int_raises JNull = Some ''TypeError''"
| "int_raises (JDict kvs) = Some ''TypeError''"
| "int_raises v = None"

fun format_raises :: "json \<Rightarrow> string option" where
  "format_raises (JStr s) = Some ''ValueError''"
| "format_raises (JList vs) = Some ''TypeError''"
| "format_raises JNull = Some ''TypeError''"
| "format_raises (JDict kvs) = Some ''TypeError''"
| "format_raises v = None"

definition table_row :: "json \<Rightarrow> json \<Rightarrow> string option" where
  "table_row our_prob opp_prob =
     first_raise [times_raises our_prob, times_raises opp_prob,
                  int_raises our_prob, int_raises opp_prob,
                  format_raises our_prob, format_raises opp_prob]"

definition create_hand_probabilities_table :: "json \<Rightarrow> json \<Rightarrow> string option" where
  "create_hand_probabilities_table our_probs opp_probs =
     (case our_probs of
        JDict our \<Rightarrow>
          (case opp_probs of
             JDict opp \<Rightarrow>
               first_raise
                 (map (\<lambda>hand. table_row (dict_get our hand (JFloat 0))
                                         (dict_get opp hand (JFloat 0)))
                    POKER_HANDS)
           | v \<Rightarrow> Some ''AttributeError'')
      | v \<Rightarrow> Some ''AttributeError'')"

text \<open>\<^verbatim>\<open>create_win_rate_display\<close>: \<^verbatim>\<open>Text(analysis.error_message or "Error")\<close> on a failure.\<close>

definition create_win_rate_display :: "PokerAnalysis \<Rightarrow> string option" where
  "create_win_rate_display analysis =
     (if \<not> success analysis
      then (case (if truthy (error_message analysis) then error_message analysis
                  else JStr ''Error'') of
              JStr s \<Rightarrow> None
            | v \<Rightarrow> Some ''AttributeError'')
      else None)"

definition build_display :: "PokerAnalysis \<Rightarrow> string \<Rightarrow> int \<Rightarrow> int \<Rightarrow> string option" where
  "build_display analysis window_title opps iter =
     first_raise [format_cards (hole_cards analysis),
                  format_cards (community_cards analysis),
                  create_hand_probabilities_table (our_hand_probabilities analysis)
                    (opponent_hand_probabilities analysis),
                  create_win_rate_display analysis]"

subsection \<open>One turn and the loop\<close>

text \<open>
  The body of the loop: the class of the exception that leaves it, if any, and the
  state. The only thing in the body that raises is \<^verbatim>\<open>build_display\<close>; then the display is
  not updated and the sleep is not reached. A display update is recorded as the event
  \<^const>\<open>Render\<close> with what is displayed.
\<close>

definition tick ::
  "(json \<Rightarrow> string) \<Rightarrow> real \<Rightarrow> window_manager \<Rightarrow> WindowInfo \<Rightarrow> string \<Rightarrow> int
     \<Rightarrow> scan_state \<Rightarrow> tick_env \<Rightarrow> string option \<times> scan_state" where
  "tick str_py scan_interval wm window license_key image_quality st e =
     (let iteration' = iteration st + 1;
          captured = capture_window wm (tick_platform e) window (outside st);
          analysis =
            (case fst captured of
               None \<Rightarrow> from_error (JStr ''Failed to capture window'')
             | Some screenshot \<Rightarrow>
                 analyze_screenshot str_py (tick_service e) screenshot (opponents_sent e)
                   license_key image_quality)
      in (case build_display analysis (w_title window) (opponents_shown e) iteration' of
            Some x \<Rightarrow>
              (Some x,
               \<lparr> iteration = iteration', last_analysis = analysis, outside = snd captured \<rparr>)
          | None \<Rightarrow>
              (let w1 = emit (Render analysis (w_title window) (opponents_shown e) iteration')
                          (snd captured);
                   elapsed = loop_end e - loop_start e;
                   t = sleep_time scan_interval elapsed;
                   w2 = (if t > 0 then emit (Sleep t) w1 else w1)
               in (None,
                   \<lparr> iteration = iteration', last_analysis = analysis, outside = w2 \<rparr>))))"

text \<open>
  The loop over the turns that complete before the interrupt arrives. It has no exit of
  its own; an exception raised in a turn leaves it, and the turns after it do not run.
\<close>

fun scan_loop ::
  "(json \<Rightarrow> string) \<Rightarrow> real \<Rightarrow> window_manager \<Rightarrow> WindowInfo \<Rightarrow> string \<Rightarrow> int
     \<Rightarrow> scan_state \<Rightarrow> tick_env list \<Rightarrow> string option \<times> scan_state" where
  "scan_loop str_py scan_interval wm window license_key image_quality st [] = (None, st)"
| "scan_loop str_py scan_interval wm window license_key image_quality st (e # es) =
     (case tick str_py scan_interval wm window license_key image_quality st e of
        (Some x, st1) \<Rightarrow> (Some x, st1)
      | (None, st1) \<Rightarrow>
          scan_loop str_py scan_interval wm window license_key image_quality st1 es)"

section \<open>Start-up\<close>

text \<open>How the process ends: \<^verbatim>\<open>main\<close> returns, \<^verbatim>\<open>sys.exit(n)\<close>, or an uncaught exception.\<close>

datatype ending = Returned | SysExit int | Uncaught string

subsection \<open>Licence key and image quality\<close>

text \<open>
  The licence file's text when the file exists and is read without an error, the line
  typed at the prompt (the prompt is taken to return a line), and the message of the
  exception when saving fails.
\<close>

record key_env =
  key_file :: "string option"
  key_input :: string
  key_save_error :: "string option"

definition LICENSE_KEY_FILE :: string where
  "LICENSE_KEY_FILE = ''calculator_license_key.txt''"

definition prompt_license_key :: "key_env \<Rightarrow> world \<Rightarrow> (int + string) \<times> world" where
  "prompt_license_key k w =
     (let w1 = emit (Print (''It will be saved to '' @ [CHR 0x27] @ LICENSE_KEY_FILE
                            @ [CHR 0x27] @ '' for future use.'' @ [CHR 0x0A]))
                (emit (Print ([CHR 0x0A] @ ''Please enter your license key.''))
                (emit (Print (replicate 50 (CHR ''='')))
                (emit (Print ''License key not found!'')
                (emit (Print ([CHR 0x0A] @ replicate 50 (CHR ''=''))) w))));
          key = strip (key_input k)
      in if key = []
         then (Inl 1, emit (Print ''No license key provided. Exiting.'') w1)
         else (Inr key,
               case key_save_error k of
                 None \<Rightarrow> emit (Print ([CHR 0x0A] @ ''[Saved to '' @ LICENSE_KEY_FILE @ '']''))
                          (w1 \<lparr> files := insert LICENSE_KEY_FILE (files w1) \<rparr>)
               | Some m \<Rightarrow>
                   emit (Print ([CHR 0x0A]
                           @ ''Warning: Could not save license key to file: '' @ m)) w1))"

definition get_license_key :: "key_env \<Rightarrow> world \<Rightarrow> (int + string) \<times> world" where
  "get_license_key k w =
     (case key_file k of
        None \<Rightarrow> prompt_license_key k w
      | Some text \<Rightarrow>
          if strip text \<noteq> [] then (Inr (strip text), w) else prompt_license_key k w)"

definition DEFAULT_IMAGE_QUALITY :: int where
  "DEFAULT_IMAGE_QUALITY = 100"

text \<open>
  \<^verbatim>\<open>get_image_quality\<close> on the outcome of its GET request. A bool is an instance of
  \<^verbatim>\<open>int\<close> in Python, with \<^verbatim>\<open>True\<close> equal to 1.
\<close>

definition get_image_quality :: "exn + response \<Rightarrow> int" where
  "get_image_quality got =
     (case got of
        Inl e \<Rightarrow> DEFAULT_IMAGE_QUALITY
      | Inr r \<Rightarrow>
          if status_code r = 200
          then (case body r of
                  Inr (JDict data) \<Rightarrow>
                    (case dict_get data ''quality'' (JInt DEFAULT_IMAGE_QUALITY) of
                       JInt quality \<Rightarrow>
                         if 1 \<le> quality \<and> quality \<le> 100 then quality
                         else DEFAULT_IMAGE_QUALITY
                     | JBool b \<Rightarrow> if b then 1 else DEFAULT_IMAGE_QUALITY
                     | _ \<Rightarrow> DEFAULT_IMAGE_QUALITY)
                | _ \<Rightarrow> DEFAULT_IMAGE_QUALITY)
          else DEFAULT_IMAGE_QUALITY)"

subsection \<open>Selecting the window manager\<close>

text \<open>
  \<^verbatim>\<open>_detect_tool\<close>: the loop over the tool names, with the outcome of
  \<^verbatim>\<open>subprocess.run([tool, "--version"], check=True)\<close> for each.
\<close>

fun detect_tool :: "(string \<Rightarrow> checked_run) \<Rightarrow> string list \<Rightarrow> world \<Rightarrow> string option \<times> world" where
  "detect_tool probe [] w = (None, w)"
| "detect_tool probe (tool # tools) w =
     (let w1 = emit (Run [tool, ''--version'']) w
      in case probe tool of
           RunOk \<Rightarrow> (Some tool, w1)
         | _ \<Rightarrow> detect_tool probe tools w1)"

text \<open>\<^verbatim>\<open>LinuxWindowManager.__init__\<close>; \<^const>\<open>Inl\<close> is \<^verbatim>\<open>sys.exit\<close>.\<close>

definition linux_init :: "(string \<Rightarrow> checked_run) \<Rightarrow> world \<Rightarrow> (int + window_manager) \<times> world" where
  "linux_init probe w =
     (case detect_tool probe [''wmctrl'', ''xdotool''] w of
        (None, w1) \<Rightarrow>
          (Inl 1,
           emit (Print ''Install with: sudo apt install wmctrl'')
             (emit (Print (''Error: Neither '' @ [CHR 0x27] @ ''wmctrl'' @ [CHR 0x27]
                           @ '' nor '' @ [CHR 0x27] @ ''xdotool'' @ [CHR 0x27] @ '' found.''))
                w1))
      | (Some tool, w1) \<Rightarrow> (Inr (LinuxWindowManager tool), w1))"

definition get_window_manager ::
  "string \<Rightarrow> (string \<Rightarrow> checked_run) \<Rightarrow> world \<Rightarrow> (int + window_manager) \<times> world" where
  "get_window_manager system probe w =
     (if system = ''Darwin'' then (Inr MacWindowManager, w) else linux_init probe w)"

subsection \<open>Selecting the window\<close>

text \<open>
  The host at start-up: the platform name, the licence and quality exchanges, the
  outcome of the tool probes when the manager is created in \<^verbatim>\<open>select_window\<close> and again
  in \<^verbatim>\<open>main\<close>, whether \<^verbatim>\<open>import Quartz\<close> succeeds, the windows the platform lists, the
  value the selection prompt returns, and the turns of the loop that complete before the
  interrupt.
\<close>

record host =
  system :: string
  license :: key_env
  quality_get :: "exn + response"
  probe_select :: "string \<Rightarrow> checked_run"
  probe_main :: "string \<Rightarrow> checked_run"
  quartz_available :: bool
  window_list :: "cg_window list"
  wmctrl_stdout :: string
  selected :: "int option"
  turns :: "tick_env list"

text \<open>\<^verbatim>\<open>wm.get_windows()\<close> for either manager; \<^const>\<open>Inl\<close> is \<^verbatim>\<open>sys.exit\<close>.\<close>

fun get_windows :: "window_manager \<Rightarrow> host \<Rightarrow> world \<Rightarrow> (int + WindowInfo list) \<times> world" where
  "get_windows MacWindowManager h w =
     (if quartz_available h then (Inr (mac_get_windows (window_list h)), w)
      else (Inl 1,
            emit (Print
              ''Error: PyObjC not found. Install with: pip install pyobjc-framework-Quartz'') w))"
| "get_windows (LinuxWindowManager tool) h w =
     (Inr (linux_get_windows tool (wmctrl_stdout h)),
      if tool = ''wmctrl'' then emit (Run [''wmctrl'', ''-l'', ''-G'']) w else w)"

text \<open>\<^verbatim>\<open>xs[i]\<close>: a negative index counts from the end; \<^const>\<open>None\<close> is the \<^verbatim>\<open>IndexError\<close>.\<close>

definition py_index :: "'a list \<Rightarrow> int \<Rightarrow> 'a option" where
  "py_index xs i =
     (if 0 \<le> i \<and> i < int (length xs) then Some (xs ! nat i)
      else if i < 0 \<and> - int (length xs) \<le> i then Some (xs ! nat (int (length xs) + i))
      else None)"

text \<open>
  \<^verbatim>\<open>select_window\<close>. The banner and the other decorated lines of the rich console are
  not recorded; the lines that report why no window is returned are.
\<close>

definition select_window :: "host \<Rightarrow> world \<Rightarrow> (ending + WindowInfo option) \<times> world" where
  "select_window h w =
     (case get_window_manager (system h) (probe_select h) w of
        (Inl n, w1) \<Rightarrow> (Inl (SysExit n), w1)
      | (Inr wm, w1) \<Rightarrow>
          (case get_windows wm h w1 of
             (Inl n, w2) \<Rightarrow> (Inl (SysExit n), w2)
           | (Inr windows, w2) \<Rightarrow>
               if windows = [] then (Inr None, emit (Print ''No visible windows found!'') w2)
               else (case selected h of
                       None \<Rightarrow> (Inr None, w2)
                     | Some i \<Rightarrow>
                         if i = - 1 then (Inr None, w2)
                         else (case py_index windows i of
                                 None \<Rightarrow> (Inl (Uncaught ''IndexError''), w2)
                               | Some window \<Rightarrow> (Inr (Some window), w2)))))"

subsection \<open>The program\<close>

text \<open>
  \<^verbatim>\<open>main\<close>: how the process ends, the state of the scan when it ends (\<^const>\<open>None\<close> when
  the loop was never reached) and the world it leaves. The start of the keyboard thread
  is the first act of the \<^verbatim>\<open>try\<close> that holds the loop. The \<^verbatim>\<open>try\<close> catches only
  \<^verbatim>\<open>KeyboardInterrupt\<close>: an exception raised in a turn ends the process uncaught.
\<close>

definition main :: "(json \<Rightarrow> string) \<Rightarrow> host \<Rightarrow> world \<Rightarrow> ending \<times> scan_state option \<times> world" where
  "main str_py h w =
     (let scan_interval = 1
      in (case get_license_key (license h) w of
            (Inl n, w1) \<Rightarrow> (SysExit n, None, w1)
          | (Inr license_key, w1) \<Rightarrow>
              (let image_quality = get_image_quality (quality_get h)
               in (case select_window h w1 of
                     (Inl end, w2) \<Rightarrow> (end, None, w2)
                   | (Inr None, w2) \<Rightarrow> (Returned, None, emit (Print ''Cancelled.'') w2)
                   | (Inr (Some window), w2) \<Rightarrow>
                       (case get_window_manager (system h) (probe_main h)
                               (emit (Sleep 2) w2) of
                          (Inl n, w3) \<Rightarrow> (SysExit n, None, w3)
                        | (Inr wm, w3) \<Rightarrow>
                            (let st0 = \<lparr> iteration = 0,
                                         last_analysis =
                                           from_error (JStr ''Waiting for first scan...''),
                                         outside = emit StartListener w3 \<rparr>
                             in (case scan_loop str_py scan_interval wm window license_key
                                        image_quality st0 (turns h) of
                                   (Some x, st) \<Rightarrow> (Uncaught x, Some st, outside st)
                                 | (None, st) \<Rightarrow>
                                     (Returned, Some st,
                                      emit (Print ''Stopped.'') (outside st)))))))))"

section \<open>Notions used to state the properties\<close>

text \<open>
  The chain as the specification words it, for comparison with the capture functions
  above: an ordered list of strategies, attempted top to bottom; the first that returns
  a bitmap wins and the strategies after it are not run.
\<close>

fun first_usable ::
  "(world \<Rightarrow> image option \<times> world) list \<Rightarrow> world \<Rightarrow> image option \<times> world" where
  "first_usable [] w = (None, w)"
| "first_usable (s # ss) w =
     (case s w of
        (Some img, w1) \<Rightarrow> (Some img, w1)
      | (None, w1) \<Rightarrow> first_usable ss w1)"

text \<open>
  The \<^verbatim>\<open>try\<close> block of \<^verbatim>\<open>MacWindowManager.capture_window\<close> taken alone: the native
  strategy, with \<^const>\<open>None\<close> wherever the function goes on to the bounds capture.
\<close>

definition quartz_native :: "platform \<Rightarrow> WindowInfo \<Rightarrow> world \<Rightarrow> image option \<times> world" where
  "quartz_native p window w =
     (let w1 = emit (Enter QuartzNative) w
      in if \<not> quartz_import p then (None, w1)
         else (case py_int (w_id window) of
                 None \<Rightarrow> (None, w1)
               | Some window_id \<Rightarrow>
                   (case quartz_image p window_id of
                      NullImage \<Rightarrow> (None, w1)
                    | CGImage None \<Rightarrow> (None, w1)
                    | CGImage (Some img) \<Rightarrow> (Some img, w1))))"

text \<open>The events that happened between two worlds, and the strategies entered in them.\<close>

definition since :: "world \<Rightarrow> world \<Rightarrow> event list" where
  "since w w' = drop (length (events w)) (events w')"

fun entered :: "event list \<Rightarrow> strategy list" where
  "entered [] = []"
| "entered (Enter s # evs) = s # entered evs"
| "entered (ev # evs) = entered evs"


text \<open>
  A simulated platform for concrete runs: the \<^verbatim>\<open>import\<close> tool ends with a non-zero
  code, \<^verbatim>\<open>scrot\<close> writes a 200 by 150 bitmap, the screen is 1920 by 1080 and a grab of a
  region gives a bitmap of the region's size, and Quartz is not installed.
\<close>

definition bitmap_200x150 :: image where
  "bitmap_200x150 = \<lparr> im_width = 200, im_height = 150, im_pixels = [] \<rparr>"

definition sim_platform :: platform where
  "sim_platform =
     \<lparr> import_env = \<lparr> tmp_name = Some ''/tmp/tmpa.png'', tool_run = Completed 1,
                       tool_removes_tmp = False, decoded = None \<rparr>,
       focus_run = RunOk,
       scrot_env = \<lparr> tmp_name = Some ''/tmp/tmpb.png'', tool_run = Completed 0,
                      tool_removes_tmp = False, decoded = Some bitmap_200x150 \<rparr>,
       mss_opens = True,
       screen_size = (1920, 1080),
       mss_grab = (\<lambda>left top width height.
                     Some \<lparr> im_width = nat width, im_height = nat height, im_pixels = [] \<rparr>),
       quartz_import = False,
       quartz_image = (\<lambda>window_id. NullImage) \<rparr>"

definition sim_window :: WindowInfo where
  "sim_window =
     \<lparr> w_id = ''0x03a00007'', w_title = ''Poker'', w_x = 100, w_y = 80,
       w_width = 800, w_height = 600 \<rparr>"

definition empty_world :: world where
  "empty_world = \<lparr> files = {}, events = [] \<rparr>"

text \<open>
  A simulated service that answers every request with the body
  \<^verbatim>\<open>{"success": false, "error": "quota exceeded"}\<close> under status 200; a turn of the loop
  on the simulated platform and service whose processing takes \<open>p\<close>; and the state in
  which \<^verbatim>\<open>main\<close> enters the loop, over the empty world.
\<close>

definition sim_service :: service where
  "sim_service =
     \<lparr> save_raises = (\<lambda>img quality. None),
       post = (\<lambda>req. Inr \<lparr> status_code = 200,
                            body = Inr (JDict [(''success'', JBool False),
                                               (''error'', JStr ''quota exceeded'')]) \<rparr>) \<rparr>"

definition sim_turn :: "real \<Rightarrow> tick_env" where
  "sim_turn p =
     \<lparr> loop_start = 10, loop_end = 10 + p, tick_platform = sim_platform,
       tick_service = sim_service, opponents_sent = 1, opponents_shown = 1 \<rparr>"

definition sim_start :: scan_state where
  "sim_start =
     \<lparr> iteration = 0, last_analysis = from_error (JStr ''Waiting for first scan...''),
       outside = empty_world \<rparr>"

text \<open>
  A simulated Linux host on which a licence file exists, neither \<^verbatim>\<open>wmctrl\<close> nor
  \<^verbatim>\<open>xdotool\<close> is installed and Quartz cannot be imported.
\<close>

definition sim_host :: host where
  "sim_host =
     \<lparr> system = ''Linux'',
       license = \<lparr> key_file = Some (''KEY-123'' @ [CHR 0x0A]), key_input = [],
                   key_save_error = None \<rparr>,
       quality_get = Inl (Timeout ''timed out''),
       probe_select = (\<lambda>tool. FileNotFound),
       probe_main = (\<lambda>tool. FileNotFound),
       quartz_available = False,
       window_list = [],
       wmctrl_stdout = [],
       selected = Some 0,
       turns = [sim_turn 2] \<rparr>"

text \<open>
  A simulated service that answers every request with the body
  \<^verbatim>\<open>{"success": false, "error": {"code": 5}}\<close> under status 200, and a turn of the loop
  on the simulated platform with this service.
\<close>

definition dict_error_service :: service where
  "dict_error_service =
     \<lparr> save_raises = (\<lambda>img quality. None),
       post = (\<lambda>req. Inr \<lparr> status_code = 200,
                            body = Inr (JDict [(''success'', JBool False),
                                               (''error'', JDict [(''code'', JInt 5)])]) \<rparr>) \<rparr>"

definition dict_error_turn :: tick_env where
  "dict_error_turn = sim_turn 2 \<lparr> tick_service := dict_error_service \<rparr>"

section \<open>Properties of the input listener\<close>

lemma key_step_range:
  "1 \<le> n \<and> n \<le> 9 \<Longrightarrow> 1 \<le> key_step n k \<and> key_step n k \<le> 9"
  by (simp add: key_step_def)

lemma keyboard_listener_range:
  "1 \<le> n \<and> n \<le> 9 \<Longrightarrow> 1 \<le> keyboard_listener n ks \<and> keyboard_listener n ks \<le> 9"
proof (induction ks arbitrary: n)
  case Nil
  then show ?case by simp
next
  case (Cons k ks)
  from Cons.prems have "1 \<le> key_step n k \<and> key_step n k \<le> 9"
    by (rule key_step_range)
  then show ?case using Cons.IH by simp
qed

lemma keyboard_listener_snoc:
  "keyboard_listener n (ks @ [k]) = key_step (keyboard_listener n ks) k"
  by (induction ks arbitrary: n) simp_all

text \<open>
  Claim C2. Starting from the initial value 1, after every finite sequence of key events
  the counter lies in [1,9]; and the event that follows changes it as the listener's
  branches say: UP adds one only below 9, DOWN subtracts one only above 1, any other key
  (and UP at 9, DOWN at 1) leaves it as it is.
\<close>

theorem opponents_stay_in_range:
  "1 \<le> keyboard_listener opponents_init ks
   \<and> keyboard_listener opponents_init ks \<le> 9
   \<and> keyboard_listener opponents_init (ks @ [UP]) =
       (if keyboard_listener opponents_init ks < 9
        then keyboard_listener opponents_init ks + 1
        else keyboard_listener opponents_init ks)
   \<and> keyboard_listener opponents_init (ks @ [DOWN]) =
       (if keyboard_listener opponents_init ks > 1
        then keyboard_listener opponents_init ks - 1
        else keyboard_listener opponents_init ks)
   \<and> keyboard_listener opponents_init (ks @ [OtherKey s]) =
       keyboard_listener opponents_init ks"
proof -
  have "1 \<le> opponents_init \<and> opponents_init \<le> 9"
    by (simp add: opponents_init_def)
  then have "1 \<le> keyboard_listener opponents_init ks
      \<and> keyboard_listener opponents_init ks \<le> 9"
    by (rule keyboard_listener_range)
  then show ?thesis
    by (simp add: keyboard_listener_snoc key_step_def)
qed

theorem opponents_stay_in_range_witness:
  "keyboard_listener opponents_init (replicate 12 UP) = 9
   \<and> keyboard_listener opponents_init (replicate 12 UP @ [UP]) = 9
   \<and> keyboard_listener opponents_init ([DOWN, DOWN] @ [DOWN]) = 1
   \<and> keyboard_listener opponents_init ([UP, OtherKey ''q'', UP] @ [DOWN]) = 2"
proof -
  have a: "keyboard_listener opponents_init (replicate 12 UP) = 9"
    by (simp add: opponents_init_def key_step_def eval_nat_numeral)
  have b: "keyboard_listener opponents_init [DOWN, DOWN] = 1"
    by (simp add: opponents_init_def key_step_def)
  have c: "keyboard_listener opponents_init [UP, OtherKey ''q'', UP] = 3"
    by (simp add: opponents_init_def key_step_def)
  show ?thesis
    using opponents_stay_in_range [of "replicate 12 UP"]
      opponents_stay_in_range [of "[DOWN, DOWN]"]
      opponents_stay_in_range [of "[UP, OtherKey ''q'', UP]"] a b c
    by simp
qed

section \<open>Properties of the analysis results\<close>

lemma dict_get_None: "map_of d k = None \<Longrightarrow> dict_get d k dflt = dflt"
  by (simp add: dict_get_def)

lemma dict_get_Some: "map_of d k = Some v \<Longrightarrow> dict_get d k dflt = v"
  by (simp add: dict_get_def)

lemma from_api_response_failure:
  assumes "\<not> truthy (dict_get d ''success'' (JBool False))"
  shows "from_api_response (JDict d)
           = Inr (from_error (dict_get d ''error'' (JStr ''Unknown API error'')))"
  using assms by (simp add: from_api_response_def)

lemma from_api_response_success:
  assumes "truthy (dict_get d ''success'' (JBool False))"
    and "dict_get d ''data'' (JDict []) = JDict r"
  shows "from_api_response (JDict d)
           = Inr \<lparr> success = True,
                   hole_cards = dict_get r ''hole_cards'' (JList []),
                   community_cards = dict_get r ''community_cards'' (JList []),
                   opponents = dict_get r ''opponents'' (JInt 0),
                   win_rate = dict_get r ''win_rate'' (JInt 0),
                   lose_rate = dict_get r ''lose_rate'' (JInt 0),
                   tie_rate = dict_get r ''tie_rate'' (JInt 0),
                   our_hand_probabilities = dict_get r ''our_hand_probabilities'' (JDict []),
                   opponent_hand_probabilities =
                     dict_get r ''opponent_hand_probabilities'' (JDict []),
                   error_message = JNull \<rparr>"
  using assms by (simp add: from_api_response_def)

lemma from_api_response_raises:
  assumes "truthy (dict_get d ''success'' (JBool False))"
    and "dict_get d ''data'' (JDict []) = v"
    and "\<forall>r. v \<noteq> JDict r"
  shows "from_api_response (JDict d) = Inl (no_get v)"
  using assms by (cases v) (simp_all add: from_api_response_def)

text \<open>
  Claim C10, as stated: for every dictionary, building the result returns and never
  raises. It does not hold: with a true \<open>success\<close> and a \<open>data\<close> field that is
  \<^verbatim>\<open>None\<close>, the first \<^verbatim>\<open>result.get\<close> raises \<^verbatim>\<open>AttributeError\<close>.
\<close>

theorem from_api_response_data_null_raises:
  "from_api_response (JDict [(''success'', JBool True), (''data'', JNull)])
     = Inl (Exception ([CHR 0x27] @ ''NoneType'' @ [CHR 0x27] @ '' object has no attribute ''
                        @ [CHR 0x27] @ ''get'' @ [CHR 0x27]))"
  by (simp add: from_api_response_def dict_get_def no_get_def)

text \<open>
  Claim C10, amended. For a dictionary \<open>d\<close>:
  \<^item> when \<open>success\<close> is absent or falsy, the result is the failure that carries the
    \<open>error\<close> field, or \<open>Unknown API error\<close> when that field is absent;
  \<^item> when \<open>success\<close> is truthy and \<open>data\<close> is absent, the result is a success in which
    every field has its default;
  \<^item> when \<open>success\<close> is truthy and \<open>data\<close> is a dictionary, the result is a success in
    which each field is the entry of \<open>data\<close>, or its default when the entry is absent;
  \<^item> when \<open>success\<close> is truthy and \<open>data\<close> is present and not a dictionary, the call
    raises.
\<close>

theorem from_api_response_total_on_dict_data:
  "((map_of d ''success'' = None \<or> (\<exists>s. map_of d ''success'' = Some s \<and> \<not> truthy s))
      \<longrightarrow> from_api_response (JDict d)
            = Inr (from_error (case map_of d ''error'' of
                                 None \<Rightarrow> JStr ''Unknown API error'' | Some m \<Rightarrow> m)))
   \<and> ((\<exists>s. map_of d ''success'' = Some s \<and> truthy s) \<and> map_of d ''data'' = None
      \<longrightarrow> from_api_response (JDict d)
            = Inr \<lparr> success = True, hole_cards = JList [], community_cards = JList [],
                    opponents = JInt 0, win_rate = JInt 0, lose_rate = JInt 0,
                    tie_rate = JInt 0, our_hand_probabilities = JDict [],
                    opponent_hand_probabilities = JDict [], error_message = JNull \<rparr>)
   \<and> ((\<exists>s. map_of d ''success'' = Some s \<and> truthy s) \<and> map_of d ''data'' = Some (JDict r)
      \<longrightarrow> (\<exists>a. from_api_response (JDict d) = Inr a \<and> success a
             \<and> hole_cards a = (case map_of r ''hole_cards'' of None \<Rightarrow> JList [] | Some v \<Rightarrow> v)
             \<and> community_cards a
                 = (case map_of r ''community_cards'' of None \<Rightarrow> JList [] | Some v \<Rightarrow> v)
             \<and> opponents a = (case map_of r ''opponents'' of None \<Rightarrow> JInt 0 | Some v \<Rightarrow> v)
             \<and> win_rate a = (case map_of r ''win_rate'' of None \<Rightarrow> JInt 0 | Some v \<Rightarrow> v)
             \<and> lose_rate a = (case map_of r ''lose_rate'' of None \<Rightarrow> JInt 0 | Some v \<Rightarrow> v)
             \<and> tie_rate a = (case map_of r ''tie_rate'' of None \<Rightarrow> JInt 0 | Some v \<Rightarrow> v)
             \<and> our_hand_probabilities a
                 = (case map_of r ''our_hand_probabilities'' of None \<Rightarrow> JDict [] | Some v \<Rightarrow> v)
             \<and> opponent_hand_probabilities a
                 = (case map_of r ''opponent_hand_probabilities'' of
                      None \<Rightarrow> JDict [] | Some v \<Rightarrow> v)
             \<and> error_message a = JNull))
   \<and> ((\<exists>s. map_of d ''success'' = Some s \<and> truthy s) \<and> map_of d ''data'' = Some v
        \<and> (\<forall>r'. v \<noteq> JDict r')
      \<longrightarrow> from_api_response (JDict d) = Inl (no_get v))"
proof (intro conjI impI)
  assume "map_of d ''success'' = None \<or> (\<exists>s. map_of d ''success'' = Some s \<and> \<not> truthy s)"
  then have "\<not> truthy (dict_get d ''success'' (JBool False))"
    by (auto simp: dict_get_def)
  then show "from_api_response (JDict d)
      = Inr (from_error (case map_of d ''error'' of
                           None \<Rightarrow> JStr ''Unknown API error'' | Some m \<Rightarrow> m))"
    by (simp add: from_api_response_failure) (simp add: dict_get_def)
next
  assume a: "(\<exists>s. map_of d ''success'' = Some s \<and> truthy s) \<and> map_of d ''data'' = None"
  then have t: "truthy (dict_get d ''success'' (JBool False))"
    by (auto simp: dict_get_def)
  from a have "dict_get d ''data'' (JDict []) = JDict []"
    by (simp add: dict_get_def)
  with t show "from_api_response (JDict d)
      = Inr \<lparr> success = True, hole_cards = JList [], community_cards = JList [],
              opponents = JInt 0, win_rate = JInt 0, lose_rate = JInt 0,
              tie_rate = JInt 0, our_hand_probabilities = JDict [],
              opponent_hand_probabilities = JDict [], error_message = JNull \<rparr>"
    by (simp add: from_api_response_success) (simp add: dict_get_def)
next
  assume a: "(\<exists>s. map_of d ''success'' = Some s \<and> truthy s)
      \<and> map_of d ''data'' = Some (JDict r)"
  then have t: "truthy (dict_get d ''success'' (JBool False))"
    by (auto simp: dict_get_def)
  from a have "dict_get d ''data'' (JDict []) = JDict r"
    by (simp add: dict_get_def)
  with t show "\<exists>a. from_api_response (JDict d) = Inr a \<and> success a
       \<and> hole_cards a = (case map_of r ''hole_cards'' of None \<Rightarrow> JList [] | Some v \<Rightarrow> v)
       \<and> community_cards a
           = (case map_of r ''community_cards'' of None \<Rightarrow> JList [] | Some v \<Rightarrow> v)
       \<and> opponents a = (case map_of r ''opponents'' of None \<Rightarrow> JInt 0 | Some v \<Rightarrow> v)
       \<and> win_rate a = (case map_of r ''win_rate'' of None \<Rightarrow> JInt 0 | Some v \<Rightarrow> v)
       \<and> lose_rate a = (case map_of r ''lose_rate'' of None \<Rightarrow> JInt 0 | Some v \<Rightarrow> v)
       \<and> tie_rate a = (case map_of r ''tie_rate'' of None \<Rightarrow> JInt 0 | Some v \<Rightarrow> v)
       \<and> our_hand_probabilities a
           = (case map_of r ''our_hand_probabilities'' of None \<Rightarrow> JDict [] | Some v \<Rightarrow> v)
       \<and> opponent_hand_probabilities a
           = (case map_of r ''opponent_hand_probabilities'' of
                None \<Rightarrow> JDict [] | Some v \<Rightarrow> v)
       \<and> error_message a = JNull"
    by (simp add: from_api_response_success) (simp add: dict_get_def)
next
  assume a: "(\<exists>s. map_of d ''success'' = Some s \<and> truthy s) \<and> map_of d ''data'' = Some v
      \<and> (\<forall>r'. v \<noteq> JDict r')"
  then have t: "truthy (dict_get d ''success'' (JBool False))"
    by (auto simp: dict_get_def)
  from a have "dict_get d ''data'' (JDict []) = v"
    by (simp add: dict_get_def)
  with t a show "from_api_response (JDict d) = Inl (no_get v)"
    by (simp add: from_api_response_raises)
qed

theorem from_api_response_total_on_dict_data_witness:
  "from_api_response (JDict [(''success'', JBool False)])
     = Inr (from_error (JStr ''Unknown API error''))
   \<and> from_api_response (JDict [(''error'', JStr ''quota exceeded'')])
     = Inr (from_error (JStr ''quota exceeded''))
   \<and> from_api_response (JDict [(''success'', JBool True)])
     = Inr \<lparr> success = True, hole_cards = JList [], community_cards = JList [],
             opponents = JInt 0, win_rate = JInt 0, lose_rate = JInt 0,
             tie_rate = JInt 0, our_hand_probabilities = JDict [],
             opponent_hand_probabilities = JDict [], error_message = JNull \<rparr>
   \<and> (\<exists>a. from_api_response
             (JDict [(''success'', JBool True),
                     (''data'', JDict [(''win_rate'', JFloat (1 / 2)), (''opponents'', JInt 3)])])
           = Inr a
         \<and> win_rate a = JFloat (1 / 2) \<and> opponents a = JInt 3 \<and> lose_rate a = JInt 0
         \<and> hole_cards a = JList [])
   \<and> from_api_response (JDict [(''success'', JInt 1), (''data'', JList [])])
     = Inl (no_get (JList []))"
proof -
  have 1: "from_api_response (JDict [(''success'', JBool False)])
     = Inr (from_error (JStr ''Unknown API error''))"
    using from_api_response_total_on_dict_data [where d = "[(''success'', JBool False)]"]
    by simp
  have 2: "from_api_response (JDict [(''error'', JStr ''quota exceeded'')])
     = Inr (from_error (JStr ''quota exceeded''))"
    using from_api_response_total_on_dict_data
      [where d = "[(''error'', JStr ''quota exceeded'')]"]
    by simp
  have 3: "from_api_response (JDict [(''success'', JBool True)])
     = Inr \<lparr> success = True, hole_cards = JList [], community_cards = JList [],
             opponents = JInt 0, win_rate = JInt 0, lose_rate = JInt 0,
             tie_rate = JInt 0, our_hand_probabilities = JDict [],
             opponent_hand_probabilities = JDict [], error_message = JNull \<rparr>"
    using from_api_response_total_on_dict_data [where d = "[(''success'', JBool True)]"]
    by simp
  have 4: "\<exists>a. from_api_response
             (JDict [(''success'', JBool True),
                     (''data'', JDict [(''win_rate'', JFloat (1 / 2)), (''opponents'', JInt 3)])])
           = Inr a
         \<and> win_rate a = JFloat (1 / 2) \<and> opponents a = JInt 3 \<and> lose_rate a = JInt 0
         \<and> hole_cards a = JList []"
    using from_api_response_total_on_dict_data
      [where d = "[(''success'', JBool True),
                   (''data'', JDict [(''win_rate'', JFloat (1 / 2)), (''opponents'', JInt 3)])]"
         and r = "[(''win_rate'', JFloat (1 / 2)), (''opponents'', JInt 3)]"
         and v = JNull]
    by auto
  have 5: "from_api_response (JDict [(''success'', JInt 1), (''data'', JList [])])
     = Inl (no_get (JList []))"
    using from_api_response_total_on_dict_data
      [where d = "[(''success'', JInt 1), (''data'', JList [])]" and v = "JList []"]
    by simp
  from 1 2 3 4 5 show ?thesis by blast
qed

section \<open>Properties of the capture chain\<close>

lemma events_emit: "events (emit ev w) = events w @ [ev]"
  by (simp add: emit_def)

lemma files_emit: "files (emit ev w) = files w"
  by (simp add: emit_def)

lemma events_unlink: "events (unlink path w) = events w"
  by (simp add: unlink_def)

lemma since_append: "events w' = events w @ evs \<Longrightarrow> since w w' = evs"
  by (simp add: since_def)

lemma entered_append: "entered (xs @ ys) = entered xs @ entered ys"
  by (induction xs rule: entered.induct) simp_all

lemma events_helper_tool:
  "events (snd (helper_tool argv e w))
     = events w @ (case tmp_name e of None \<Rightarrow> [] | Some path \<Rightarrow> [Run (argv @ [path])])"
  by (simp add: helper_tool_def Let_def events_emit events_unlink
           split: option.split timed_run.split)

lemma events_method_import:
  "events (snd (method_import p window w))
     = events w @ Enter ImportTool
         # (case tmp_name (import_env p) of
              None \<Rightarrow> []
            | Some path \<Rightarrow> [Run ([''import'', ''-window'', w_id window] @ [path])])"
  by (simp add: method_import_def events_helper_tool events_emit)

lemma events_method_scrot:
  "events (snd (method_scrot tool p window w))
     = events w @ Enter Scrot # Run (focus_argv tool window)
         # (if focus_run p = FileNotFound then []
            else Sleep (2 / 10)
                 # (case tmp_name (scrot_env p) of
                      None \<Rightarrow> []
                    | Some path \<Rightarrow> [Run ([''scrot'', ''-u''] @ [path])]))"
  by (simp add: method_scrot_def Let_def events_helper_tool events_emit
           split: checked_run.split)

lemma events_method_mss:
  "events (snd (method_mss p window w))
     = events w @ Enter MssRegion
         # (let x = max 0 (w_x window);
                y = max 0 (w_y window);
                width = min (w_width window) (fst (screen_size p) - x);
                height = min (w_height window) (snd (screen_size p) - y)
            in if mss_opens p \<and> \<not> (width \<le> 0 \<or> height \<le> 0)
               then [Grab x y width height] else [])"
  by (simp add: method_mss_def Let_def events_emit)

lemma events_quartz_native:
  "events (snd (quartz_native p window w)) = events w @ [Enter QuartzNative]"
  by (simp add: quartz_native_def Let_def events_emit
           split: option.split quartz_result.split)

lemma events_capture_by_bounds:
  "events (snd (capture_by_bounds p window w))
     = events w @ Enter BoundsRegion
         # (if mss_opens p
            then [Grab (w_x window) (w_y window) (w_width window) (w_height window)]
            else [])"
  by (simp add: capture_by_bounds_def Let_def events_emit)

lemma linux_capture_window_chain:
  "linux_capture_window tool p window w
     = first_usable [method_import p window, method_scrot tool p window, method_mss p window] w"
  by (simp add: linux_capture_window_def split: prod.split option.split)

lemma mac_capture_window_chain:
  "mac_capture_window p window w
     = first_usable [quartz_native p window, capture_by_bounds p window] w"
  by (simp add: mac_capture_window_def quartz_native_def Let_def
           split: prod.split option.split quartz_result.split)

lemma linux_capture_window_cases:
  "linux_capture_window tool p window w
     = (if fst (method_import p window w) \<noteq> None then method_import p window w
        else if fst (method_scrot tool p window (snd (method_import p window w))) \<noteq> None
        then method_scrot tool p window (snd (method_import p window w))
        else method_mss p window
               (snd (method_scrot tool p window (snd (method_import p window w)))))"
  by (auto simp: linux_capture_window_def split: prod.split option.split)

lemma mac_capture_window_cases:
  "mac_capture_window p window w
     = (if fst (quartz_native p window w) \<noteq> None then quartz_native p window w
        else capture_by_bounds p window (snd (quartz_native p window w)))"
  by (auto simp: mac_capture_window_def quartz_native_def Let_def
           split: prod.split option.split quartz_result.split)

lemma grows: "events w' = events w @ evs \<Longrightarrow> events w' = events w @ since w w'"
  by (simp add: since_def)

lemma grows_method_import:
  "events (snd (method_import p window w))
     = events w @ since w (snd (method_import p window w))"
  by (rule grows) (rule events_method_import)

lemma grows_method_scrot:
  "events (snd (method_scrot tool p window w))
     = events w @ since w (snd (method_scrot tool p window w))"
  by (rule grows) (rule events_method_scrot)

lemma grows_method_mss:
  "events (snd (method_mss p window w)) = events w @ since w (snd (method_mss p window w))"
  by (rule grows) (rule events_method_mss)

lemma since_linux_capture_window:
  "since w (snd (linux_capture_window tool p window w))
     = since w (snd (method_import p window w))
       @ (if fst (method_import p window w) \<noteq> None then []
          else since (snd (method_import p window w))
                 (snd (method_scrot tool p window (snd (method_import p window w))))
               @ (if fst (method_scrot tool p window (snd (method_import p window w))) \<noteq> None
                  then []
                  else since (snd (method_scrot tool p window (snd (method_import p window w))))
                         (snd (method_mss p window
                           (snd (method_scrot tool p window (snd (method_import p window w))))))))"
proof -
  define w1 where "w1 = snd (method_import p window w)"
  define w2 where "w2 = snd (method_scrot tool p window w1)"
  define w3 where "w3 = snd (method_mss p window w2)"
  have e1: "events w1 = events w @ since w w1"
    unfolding w1_def by (rule grows_method_import)
  have e2: "events w2 = events w1 @ since w1 w2"
    unfolding w2_def by (rule grows_method_scrot)
  have e3: "events w3 = events w2 @ since w2 w3"
    unfolding w3_def by (rule grows_method_mss)
  have s2: "since w w2 = since w w1 @ since w1 w2"
    by (rule since_append) (simp add: e2 e1)
  have s3: "since w w3 = since w w1 @ since w1 w2 @ since w2 w3"
    by (rule since_append) (simp add: e3 e2 e1)
  show ?thesis
    unfolding linux_capture_window_cases
    using s2 s3 by (simp add: w1_def w2_def w3_def)
qed

lemma since_mac_capture_window:
  "since w (snd (mac_capture_window p window w))
     = Enter QuartzNative
       # (if fst (quartz_native p window w) \<noteq> None then []
          else Enter BoundsRegion
               # (if mss_opens p
                  then [Grab (w_x window) (w_y window) (w_width window) (w_height window)]
                  else []))"
proof -
  have "events (snd (mac_capture_window p window w))
      = events w @ Enter QuartzNative
       # (if fst (quartz_native p window w) \<noteq> None then []
          else Enter BoundsRegion
               # (if mss_opens p
                  then [Grab (w_x window) (w_y window) (w_width window) (w_height window)]
                  else []))"
    unfolding mac_capture_window_cases
    by (simp add: events_quartz_native events_capture_by_bounds)
  then show ?thesis by (rule since_append)
qed

lemma entered_since_method_import:
  "entered (since w (snd (method_import p window w))) = [ImportTool]"
  by (simp add: since_def events_method_import split: option.split)

lemma entered_since_method_scrot:
  "entered (since w (snd (method_scrot tool p window w))) = [Scrot]"
  by (simp add: since_def events_method_scrot split: option.split)

lemma entered_since_method_mss:
  "entered (since w (snd (method_mss p window w))) = [MssRegion]"
  by (simp add: since_def events_method_mss Let_def)

lemma no_grab_method_import: "Grab a b c d \<notin> set (since w (snd (method_import p window w)))"
  by (simp add: since_def events_method_import split: option.split)

lemma no_grab_method_scrot:
  "Grab a b c d \<notin> set (since w (snd (method_scrot tool p window w)))"
  by (simp add: since_def events_method_scrot split: option.split)

text \<open>
  Claim C1. On either platform a capture is the specification's chain over the
  platform's strategies in their declared order (\<^verbatim>\<open>import\<close>, \<^verbatim>\<open>scrot\<close>, screen region on
  Linux; native, screen region on macOS): the strategies entered during the capture are
  exactly those up to the first that returns a bitmap, and that bitmap is the result. In
  particular, when the first strategy fails and the helper tool that comes second returns
  a bitmap, the capture returns that bitmap, the screen-region strategy is not entered
  and no region is grabbed.
\<close>

theorem capture_first_usable_wins:
  "linux_capture_window tool p window w
     = first_usable [method_import p window, method_scrot tool p window, method_mss p window] w
   \<and> mac_capture_window p window w
     = first_usable [quartz_native p window, capture_by_bounds p window] w
   \<and> entered (since w (snd (linux_capture_window tool p window w)))
     = (if fst (method_import p window w) \<noteq> None then [ImportTool]
        else if fst (method_scrot tool p window (snd (method_import p window w))) \<noteq> None
        then [ImportTool, Scrot]
        else [ImportTool, Scrot, MssRegion])
   \<and> entered (since w (snd (mac_capture_window p window w)))
     = (if fst (quartz_native p window w) \<noteq> None then [QuartzNative]
        else [QuartzNative, BoundsRegion])
   \<and> (fst (method_import p window w) = None
        \<and> fst (method_scrot tool p window (snd (method_import p window w))) = Some img
      \<longrightarrow> fst (linux_capture_window tool p window w) = Some img
          \<and> MssRegion \<notin> set (entered (since w (snd (linux_capture_window tool p window w))))
          \<and> (\<forall>a b c d.
                Grab a b c d \<notin> set (since w (snd (linux_capture_window tool p window w)))))"
proof (intro conjI impI)
  show "linux_capture_window tool p window w
     = first_usable [method_import p window, method_scrot tool p window, method_mss p window] w"
    by (rule linux_capture_window_chain)
  show "mac_capture_window p window w
     = first_usable [quartz_native p window, capture_by_bounds p window] w"
    by (rule mac_capture_window_chain)
  show "entered (since w (snd (linux_capture_window tool p window w)))
     = (if fst (method_import p window w) \<noteq> None then [ImportTool]
        else if fst (method_scrot tool p window (snd (method_import p window w))) \<noteq> None
        then [ImportTool, Scrot]
        else [ImportTool, Scrot, MssRegion])"
    by (simp add: since_linux_capture_window entered_append entered_since_method_import
          entered_since_method_scrot entered_since_method_mss)
  show "entered (since w (snd (mac_capture_window p window w)))
     = (if fst (quartz_native p window w) \<noteq> None then [QuartzNative]
        else [QuartzNative, BoundsRegion])"
    by (simp add: since_mac_capture_window)
next
  assume a: "fst (method_import p window w) = None
      \<and> fst (method_scrot tool p window (snd (method_import p window w))) = Some img"
  then show "fst (linux_capture_window tool p window w) = Some img"
    by (simp add: linux_capture_window_cases)
  from a show "MssRegion \<notin> set (entered (since w (snd (linux_capture_window tool p window w))))"
    by (simp add: since_linux_capture_window entered_append entered_since_method_import
          entered_since_method_scrot)
  from a show "\<forall>a b c d.
      Grab a b c d \<notin> set (since w (snd (linux_capture_window tool p window w)))"
    by (simp add: since_linux_capture_window no_grab_method_import no_grab_method_scrot)
qed

lemma sim_method_import:
  "method_import sim_platform sim_window empty_world
     = (None, \<lparr> files = {},
               events = [Enter ImportTool,
                         Run [''import'', ''-window'', ''0x03a00007'', ''/tmp/tmpa.png'']] \<rparr>)"
  by (simp add: method_import_def helper_tool_def sim_platform_def sim_window_def
        empty_world_def emit_def unlink_def)

lemma sim_method_scrot:
  "method_scrot ''wmctrl'' sim_platform sim_window
       \<lparr> files = {},
         events = [Enter ImportTool,
                   Run [''import'', ''-window'', ''0x03a00007'', ''/tmp/tmpa.png'']] \<rparr>
     = (Some bitmap_200x150,
        \<lparr> files = {},
          events = [Enter ImportTool,
                    Run [''import'', ''-window'', ''0x03a00007'', ''/tmp/tmpa.png''],
                    Enter Scrot,
                    Run [''wmctrl'', ''-i'', ''-a'', ''0x03a00007''],
                    Sleep (2 / 10),
                    Run [''scrot'', ''-u'', ''/tmp/tmpb.png'']] \<rparr>)"
  by (simp add: method_scrot_def focus_argv_def helper_tool_def sim_platform_def
        sim_window_def emit_def unlink_def)

theorem capture_first_usable_wins_witness:
  "linux_capture_window ''wmctrl'' sim_platform sim_window empty_world
     = (Some bitmap_200x150,
        \<lparr> files = {},
          events = [Enter ImportTool,
                    Run [''import'', ''-window'', ''0x03a00007'', ''/tmp/tmpa.png''],
                    Enter Scrot,
                    Run [''wmctrl'', ''-i'', ''-a'', ''0x03a00007''],
                    Sleep (2 / 10),
                    Run [''scrot'', ''-u'', ''/tmp/tmpb.png'']] \<rparr>)
   \<and> fst (method_import sim_platform sim_window empty_world) = None
   \<and> MssRegion \<notin> set (entered (since empty_world
         (snd (linux_capture_window ''wmctrl'' sim_platform sim_window empty_world))))
   \<and> (\<forall>a b c d. Grab a b c d \<notin> set (since empty_world
         (snd (linux_capture_window ''wmctrl'' sim_platform sim_window empty_world))))"
proof -
  have h: "fst (method_import sim_platform sim_window empty_world) = None
      \<and> fst (method_scrot ''wmctrl'' sim_platform sim_window
               (snd (method_import sim_platform sim_window empty_world)))
          = Some bitmap_200x150"
    by (simp add: sim_method_import sim_method_scrot)
  note t = capture_first_usable_wins
      [of "''wmctrl''" sim_platform sim_window empty_world bitmap_200x150]
  from t h have c: "fst (linux_capture_window ''wmctrl'' sim_platform sim_window empty_world)
        = Some bitmap_200x150
      \<and> MssRegion \<notin> set (entered (since empty_world
            (snd (linux_capture_window ''wmctrl'' sim_platform sim_window empty_world))))
      \<and> (\<forall>a b c d. Grab a b c d \<notin> set (since empty_world
            (snd (linux_capture_window ''wmctrl'' sim_platform sim_window empty_world))))"
    by blast
  from t have ch: "linux_capture_window ''wmctrl'' sim_platform sim_window empty_world
      = first_usable [method_import sim_platform sim_window,
                      method_scrot ''wmctrl'' sim_platform sim_window,
                      method_mss sim_platform sim_window] empty_world"
    by blast
  have v: "linux_capture_window ''wmctrl'' sim_platform sim_window empty_world
     = (Some bitmap_200x150,
        \<lparr> files = {},
          events = [Enter ImportTool,
                    Run [''import'', ''-window'', ''0x03a00007'', ''/tmp/tmpa.png''],
                    Enter Scrot,
                    Run [''wmctrl'', ''-i'', ''-a'', ''0x03a00007''],
                    Sleep (2 / 10),
                    Run [''scrot'', ''-u'', ''/tmp/tmpb.png'']] \<rparr>)"
    unfolding ch by (simp add: sim_method_import sim_method_scrot)
  from v h c show ?thesis by blast
qed

section \<open>Temporary files of the helper tools\<close>

lemma files_helper_tool_completed:
  assumes "tool_run e = Completed rc" and "tmp_name e = Some path"
    and "rc \<noteq> 0 \<or> decoded e \<noteq> None"
  shows "files (snd (helper_tool argv e w)) = files w - {path}"
  using assms
  by (auto simp: helper_tool_def Let_def emit_def unlink_def split: option.split)

text \<open>
  Claim C4 says that no temporary file is left after an attempt, also when the tool
  times out. The code removes the file only on the paths where \<^verbatim>\<open>subprocess.run\<close>
  returns; when \<^verbatim>\<open>import\<close> times out, the file that \<^verbatim>\<open>NamedTemporaryFile\<close> created is
  still there after the capture, although the capture itself succeeds through
  \<^verbatim>\<open>scrot\<close>.
\<close>

theorem import_timeout_leaves_tmp_file:
  "linux_capture_window ''wmctrl''
     (sim_platform \<lparr> import_env :=
        \<lparr> tmp_name = Some ''/tmp/tmpa.png'', tool_run = TimeoutExpired,
          tool_removes_tmp = False, decoded = None \<rparr> \<rparr>)
     sim_window empty_world
   = (Some bitmap_200x150,
      \<lparr> files = {''/tmp/tmpa.png''},
        events = [Enter ImportTool,
                  Run [''import'', ''-window'', ''0x03a00007'', ''/tmp/tmpa.png''],
                  Enter Scrot,
                  Run [''wmctrl'', ''-i'', ''-a'', ''0x03a00007''],
                  Sleep (2 / 10),
                  Run [''scrot'', ''-u'', ''/tmp/tmpb.png'']] \<rparr>)"
  by (simp add: linux_capture_window_def method_import_def method_scrot_def focus_argv_def
        helper_tool_def sim_platform_def sim_window_def empty_world_def emit_def unlink_def)

section \<open>The screen-region strategies\<close>

text \<open>
  Claim C8, as stated for every window handle on both platforms. It does not hold on
  macOS: the bounds capture grabs the window's recorded bounds as they are, here with
  negative offsets and a size beyond the 1920 by 1080 screen.
\<close>

theorem mac_bounds_capture_not_clamped:
  "mac_capture_window sim_platform
     \<lparr> w_id = ''42'', w_title = ''Poker'', w_x = - 50, w_y = - 20,
       w_width = 5000, w_height = 4000 \<rparr> empty_world
   = (Some \<lparr> im_width = 5000, im_height = 4000, im_pixels = [] \<rparr>,
      \<lparr> files = {},
        events = [Enter QuartzNative, Enter BoundsRegion, Grab (- 50) (- 20) 5000 4000] \<rparr>)"
  by (simp add: mac_capture_window_def capture_by_bounds_def sim_platform_def
        empty_world_def emit_def)

text \<open>
  Claim C8, amended. On Linux, every region grabbed during a capture is the window's
  bounds clamped to the screen: its offsets are not negative, its size is positive and
  it ends within the screen's width and height; and when the clamped width or height is
  not positive the screen-region strategy fails without grabbing. On macOS the bounds
  capture grabs the window's recorded bounds unchanged.
\<close>

theorem linux_region_clamped:
  "(Grab x y wd ht \<in> set (since w (snd (linux_capture_window tool p window w)))
      \<longrightarrow> x = max 0 (w_x window) \<and> y = max 0 (w_y window)
          \<and> 0 \<le> x \<and> 0 \<le> y \<and> 0 < wd \<and> 0 < ht
          \<and> wd \<le> w_width window \<and> ht \<le> w_height window
          \<and> x + wd \<le> fst (screen_size p) \<and> y + ht \<le> snd (screen_size p))
   \<and> (min (w_width window) (fst (screen_size p) - max 0 (w_x window)) \<le> 0
        \<or> min (w_height window) (snd (screen_size p) - max 0 (w_y window)) \<le> 0
      \<longrightarrow> fst (method_mss p window w) = None
          \<and> since w (snd (method_mss p window w)) = [Enter MssRegion])
   \<and> since w (snd (capture_by_bounds p window w))
       = Enter BoundsRegion
         # (if mss_opens p
            then [Grab (w_x window) (w_y window) (w_width window) (w_height window)]
            else [])"
proof (intro conjI impI)
  assume g: "Grab x y wd ht \<in> set (since w (snd (linux_capture_window tool p window w)))"
  define w2 where
    "w2 = snd (method_scrot tool p window (snd (method_import p window w)))"
  from g have "Grab x y wd ht \<in> set (since w2 (snd (method_mss p window w2)))"
    by (simp add: since_linux_capture_window no_grab_method_import no_grab_method_scrot
          w2_def split: if_splits)
  then have "Grab x y wd ht \<in> set
       (Enter MssRegion
         # (let x = max 0 (w_x window);
                y = max 0 (w_y window);
                width = min (w_width window) (fst (screen_size p) - x);
                height = min (w_height window) (snd (screen_size p) - y)
            in if mss_opens p \<and> \<not> (width \<le> 0 \<or> height \<le> 0)
               then [Grab x y width height] else []))"
    using events_method_mss [of p window w2, THEN since_append] by simp
  then have q: "x = max 0 (w_x window) \<and> y = max 0 (w_y window)
      \<and> wd = min (w_width window) (fst (screen_size p) - max 0 (w_x window))
      \<and> ht = min (w_height window) (snd (screen_size p) - max 0 (w_y window))
      \<and> \<not> min (w_width window) (fst (screen_size p) - max 0 (w_x window)) \<le> 0
      \<and> \<not> min (w_height window) (snd (screen_size p) - max 0 (w_y window)) \<le> 0"
    by (simp add: Let_def split: if_splits)
  then have r: "x = max 0 (w_x window) \<and> y = max 0 (w_y window)
      \<and> wd = min (w_width window) (fst (screen_size p) - x)
      \<and> ht = min (w_height window) (snd (screen_size p) - y)
      \<and> 0 < wd \<and> 0 < ht"
    by linarith
  from r show "x = max 0 (w_x window)" by blast
  from r show "y = max 0 (w_y window)" by blast
  from r show "0 \<le> x" by linarith
  from r show "0 \<le> y" by linarith
  from r show "0 < wd" by blast
  from r show "0 < ht" by blast
  from r show "wd \<le> w_width window" by linarith
  from r show "ht \<le> w_height window" by linarith
  from r show "x + wd \<le> fst (screen_size p)" by linarith
  from r show "y + ht \<le> snd (screen_size p)" by linarith
next
  assume e: "min (w_width window) (fst (screen_size p) - max 0 (w_x window)) \<le> 0
      \<or> min (w_height window) (snd (screen_size p) - max 0 (w_y window)) \<le> 0"
  then show "fst (method_mss p window w) = None"
    by (auto simp: method_mss_def Let_def)
  from e have "events (snd (method_mss p window w)) = events w @ [Enter MssRegion]"
    by (auto simp: events_method_mss Let_def)
  then show "since w (snd (method_mss p window w)) = [Enter MssRegion]"
    by (rule since_append)
next
  show "since w (snd (capture_by_bounds p window w))
       = Enter BoundsRegion
         # (if mss_opens p
            then [Grab (w_x window) (w_y window) (w_width window) (w_height window)]
            else [])"
    by (rule since_append) (rule events_capture_by_bounds)
qed

theorem linux_region_clamped_witness:
  "Grab 0 1000 800 80 \<in> set (since empty_world (snd (linux_capture_window ''wmctrl''
       (sim_platform \<lparr> scrot_env :=
          \<lparr> tmp_name = Some ''/tmp/tmpb.png'', tool_run = Completed 2,
            tool_removes_tmp = False, decoded = None \<rparr> \<rparr>)
       \<lparr> w_id = ''0x03a00007'', w_title = ''Poker'', w_x = - 50, w_y = 1000,
         w_width = 800, w_height = 600 \<rparr> empty_world)))
   \<and> (0 :: int) + 800 \<le> 1920 \<and> (1000 :: int) + 80 \<le> 1080
   \<and> fst (method_mss sim_platform
         \<lparr> w_id = ''0x03a00007'', w_title = ''Poker'', w_x = 2000, w_y = 0,
           w_width = 800, w_height = 600 \<rparr> empty_world) = None
   \<and> since empty_world (snd (method_mss sim_platform
         \<lparr> w_id = ''0x03a00007'', w_title = ''Poker'', w_x = 2000, w_y = 0,
           w_width = 800, w_height = 600 \<rparr> empty_world)) = [Enter MssRegion]"
proof -
  define P where "P = sim_platform \<lparr> scrot_env :=
          \<lparr> tmp_name = Some ''/tmp/tmpb.png'', tool_run = Completed 2,
            tool_removes_tmp = False, decoded = None \<rparr> \<rparr>"
  define W where "W = \<lparr> w_id = ''0x03a00007'', w_title = ''Poker'', w_x = - 50, w_y = 1000,
         w_width = 800, w_height = 600 \<rparr>"
  define V where "V = \<lparr> w_id = ''0x03a00007'', w_title = ''Poker'', w_x = 2000, w_y = 0,
           w_width = 800, w_height = 600 \<rparr>"
  have run: "events (snd (linux_capture_window ''wmctrl'' P W empty_world))
      = [Enter ImportTool,
         Run [''import'', ''-window'', ''0x03a00007'', ''/tmp/tmpa.png''],
         Enter Scrot,
         Run [''wmctrl'', ''-i'', ''-a'', ''0x03a00007''],
         Sleep (2 / 10),
         Run [''scrot'', ''-u'', ''/tmp/tmpb.png''],
         Enter MssRegion,
         Grab 0 1000 800 80]"
    by (simp add: linux_capture_window_def method_import_def method_scrot_def
          method_mss_def focus_argv_def helper_tool_def P_def W_def sim_platform_def
          empty_world_def emit_def unlink_def)
  have g: "Grab 0 1000 800 80
      \<in> set (since empty_world (snd (linux_capture_window ''wmctrl'' P W empty_world)))"
    by (simp add: since_def run) (simp add: empty_world_def)
  have e: "min (w_width V) (fst (screen_size sim_platform) - max 0 (w_x V)) \<le> 0
        \<or> min (w_height V) (snd (screen_size sim_platform) - max 0 (w_y V)) \<le> 0"
    by (simp add: V_def sim_platform_def)
  note t1 = linux_region_clamped
      [of 0 1000 800 80 empty_world "''wmctrl''" P W]
  note t2 = linux_region_clamped [where p = sim_platform and window = V and w = empty_world]
  from t1 g have b: "0 + 800 \<le> fst (screen_size P) \<and> 1000 + 80 \<le> snd (screen_size P)"
    by blast
  from t2 e have n: "fst (method_mss sim_platform V empty_world) = None
      \<and> since empty_world (snd (method_mss sim_platform V empty_world)) = [Enter MssRegion]"
    by blast
  from b have "(0 :: int) + 800 \<le> 1920 \<and> (1000 :: int) + 80 \<le> 1080"
    by (simp add: P_def sim_platform_def)
  with g n show ?thesis
    unfolding P_def W_def V_def by blast
qed

section \<open>Properties of the scan loop\<close>







lemma last_analysis_tick:
  "last_analysis (snd (tick str_py T wm window key q st e))
     = (case fst (capture_window wm (tick_platform e) window (outside st)) of
          None \<Rightarrow> from_error (JStr ''Failed to capture window'')
        | Some screenshot \<Rightarrow>
            analyze_screenshot str_py (tick_service e) screenshot (opponents_sent e) key q)"
  by (simp add: tick_def Let_def split: option.split)


lemma fst_tick:
  "fst (tick str_py T wm window key q st e)
     = build_display (last_analysis (snd (tick str_py T wm window key q st e)))
         (w_title window) (opponents_shown e) (iteration st + 1)"
  by (simp add: tick_def Let_def split: option.split)












lemma build_display_failure_message:
  "build_display (from_error (JStr m)) title n i = None"
  by (simp add: build_display_def from_error_def format_cards_def
        create_hand_probabilities_table_def create_win_rate_display_def POKER_HANDS_def
        table_row_def dict_get_def)








section \<open>The shape of a service failure\<close>

text \<open>
  Claim C7. When the service answers with status 200 and a body whose \<open>success\<close> is
  false and whose \<open>error\<close> is \<open>quota exceeded\<close>, the result is a failure whose message
  is exactly \<open>quota exceeded\<close> and whose win, tie and lose rates are zero. A timed-out
  request and a response whose status is not 200 give the result of a local capture
  failure (the result of a turn whose capture returns nothing) with only the message
  replaced. A result of this shape, whatever its message, is one the display can be
  built from.
\<close>

theorem service_failure_shape:
  "(save_raises srv img q = None
      \<and> post srv \<lparr> req_license_key = key, req_image = img, req_quality = q,
                   req_opponents = str_int n \<rparr> = Inr r
      \<and> status_code r = 200 \<and> body r = Inr (JDict d)
      \<and> map_of d ''success'' = Some (JBool False)
      \<and> map_of d ''error'' = Some (JStr ''quota exceeded'')
    \<longrightarrow> analyze_screenshot str_py srv img n key q = from_error (JStr ''quota exceeded'')
        \<and> \<not> success (analyze_screenshot str_py srv img n key q)
        \<and> error_message (analyze_screenshot str_py srv img n key q) = JStr ''quota exceeded''
        \<and> win_rate (analyze_screenshot str_py srv img n key q) = JInt 0
        \<and> tie_rate (analyze_screenshot str_py srv img n key q) = JInt 0
        \<and> lose_rate (analyze_screenshot str_py srv img n key q) = JInt 0)
   \<and> (save_raises srv img q = None
        \<and> post srv \<lparr> req_license_key = key, req_image = img, req_quality = q,
                     req_opponents = str_int n \<rparr> = Inl (Timeout m)
      \<longrightarrow> analyze_screenshot str_py srv img n key q
            = (from_error (JStr ''Failed to capture window''))
                \<lparr> error_message := JStr ''API request timed out'' \<rparr>)
   \<and> (save_raises srv img q = None
        \<and> post srv \<lparr> req_license_key = key, req_image = img, req_quality = q,
                     req_opponents = str_int n \<rparr> = Inr r
        \<and> status_code r \<noteq> 200
      \<longrightarrow> analyze_screenshot str_py srv img n key q
            = (from_error (JStr ''Failed to capture window''))
                \<lparr> error_message := JStr (error_msg_of str_py r) \<rparr>)
   \<and> (fst (capture_window wm (tick_platform e) window (outside st)) = None
      \<longrightarrow> last_analysis (snd (tick str_py T wm window key q st e))
            = from_error (JStr ''Failed to capture window''))
   \<and> build_display ((from_error (JStr ''Failed to capture window''))
                        \<lparr> error_message := JStr msg \<rparr>) title k i = None"
proof (intro conjI impI)
  assume a: "save_raises srv img q = None
      \<and> post srv \<lparr> req_license_key = key, req_image = img, req_quality = q,
                   req_opponents = str_int n \<rparr> = Inr r
      \<and> status_code r = 200 \<and> body r = Inr (JDict d)
      \<and> map_of d ''success'' = Some (JBool False)
      \<and> map_of d ''error'' = Some (JStr ''quota exceeded'')"
  then have "from_api_response (JDict d) = Inr (from_error (JStr ''quota exceeded''))"
    by (simp add: from_api_response_def dict_get_def)
  with a show v: "analyze_screenshot str_py srv img n key q
      = from_error (JStr ''quota exceeded'')"
    by (simp add: analyze_screenshot_def)
  show "\<not> success (analyze_screenshot str_py srv img n key q)"
    unfolding v by (simp add: from_error_def)
  show "error_message (analyze_screenshot str_py srv img n key q) = JStr ''quota exceeded''"
    unfolding v by (simp add: from_error_def)
  show "win_rate (analyze_screenshot str_py srv img n key q) = JInt 0"
    unfolding v by (simp add: from_error_def)
  show "tie_rate (analyze_screenshot str_py srv img n key q) = JInt 0"
    unfolding v by (simp add: from_error_def)
  show "lose_rate (analyze_screenshot str_py srv img n key q) = JInt 0"
    unfolding v by (simp add: from_error_def)
next
  assume "save_raises srv img q = None
        \<and> post srv \<lparr> req_license_key = key, req_image = img, req_quality = q,
                     req_opponents = str_int n \<rparr> = Inl (Timeout m)"
  then show "analyze_screenshot str_py srv img n key q
            = (from_error (JStr ''Failed to capture window''))
                \<lparr> error_message := JStr ''API request timed out'' \<rparr>"
    by (simp add: analyze_screenshot_def from_error_def)
next
  assume "save_raises srv img q = None
        \<and> post srv \<lparr> req_license_key = key, req_image = img, req_quality = q,
                     req_opponents = str_int n \<rparr> = Inr r
        \<and> status_code r \<noteq> 200"
  then show "analyze_screenshot str_py srv img n key q
            = (from_error (JStr ''Failed to capture window''))
                \<lparr> error_message := JStr (error_msg_of str_py r) \<rparr>"
    by (simp add: analyze_screenshot_def from_error_def)
next
  assume "fst (capture_window wm (tick_platform e) window (outside st)) = None"
  then show "last_analysis (snd (tick str_py T wm window key q st e))
            = from_error (JStr ''Failed to capture window'')"
    by (simp add: last_analysis_tick)
next
  have "(from_error (JStr ''Failed to capture window'')) \<lparr> error_message := JStr msg \<rparr>
      = from_error (JStr msg)"
    by (simp add: from_error_def)
  then show "build_display ((from_error (JStr ''Failed to capture window''))
                        \<lparr> error_message := JStr msg \<rparr>) title k i = None"
    by (simp add: build_display_failure_message)
qed

theorem service_failure_shape_witness:
  "analyze_screenshot (\<lambda>v. []) sim_service bitmap_200x150 3 ''KEY'' 100
     = from_error (JStr ''quota exceeded'')
   \<and> error_message (analyze_screenshot (\<lambda>v. []) sim_service bitmap_200x150 3 ''KEY'' 100)
     = JStr ''quota exceeded''
   \<and> win_rate (analyze_screenshot (\<lambda>v. []) sim_service bitmap_200x150 3 ''KEY'' 100) = JInt 0
   \<and> tie_rate (analyze_screenshot (\<lambda>v. []) sim_service bitmap_200x150 3 ''KEY'' 100) = JInt 0
   \<and> lose_rate (analyze_screenshot (\<lambda>v. []) sim_service bitmap_200x150 3 ''KEY'' 100) = JInt 0
   \<and> analyze_screenshot (\<lambda>v. [])
       \<lparr> save_raises = (\<lambda>img quality. None),
         post = (\<lambda>req. Inl (Timeout ''read timed out'')) \<rparr> bitmap_200x150 3 ''KEY'' 100
     = (from_error (JStr ''Failed to capture window''))
         \<lparr> error_message := JStr ''API request timed out'' \<rparr>
   \<and> analyze_screenshot (\<lambda>v. [])
       \<lparr> save_raises = (\<lambda>img quality. None),
         post = (\<lambda>req. Inr \<lparr> status_code = 429,
                              body = Inr (JDict [(''error'', JStr ''quota exceeded'')]) \<rparr>) \<rparr>
       bitmap_200x150 3 ''KEY'' 100
     = (from_error (JStr ''Failed to capture window''))
         \<lparr> error_message := JStr ''quota exceeded'' \<rparr>
   \<and> last_analysis (snd (tick (\<lambda>v. []) 1 MacWindowManager sim_window ''KEY'' 100 sim_start
         (sim_turn 0 \<lparr> tick_platform := sim_platform \<lparr> mss_opens := False \<rparr> \<rparr>)))
     = from_error (JStr ''Failed to capture window'')"
proof -
  define R0 where "R0 = \<lparr> status_code = 200,
       body = Inr (JDict [(''success'', JBool False), (''error'', JStr ''quota exceeded'')])
              :: exn + json \<rparr>"
  define S1 where "S1 = \<lparr> save_raises = (\<lambda>img quality :: int. None :: exn option),
            post = (\<lambda>req :: request. Inl (Timeout ''read timed out'') :: exn + response) \<rparr>"
  define R2 where "R2 = \<lparr> status_code = 429,
                         body = Inr (JDict [(''error'', JStr ''quota exceeded'')]) :: exn + json \<rparr>"
  define S2 where "S2 = \<lparr> save_raises = (\<lambda>img quality :: int. None :: exn option),
            post = (\<lambda>req :: request. Inr R2 :: exn + response) \<rparr>"
  define E where "E = sim_turn 0 \<lparr> tick_platform := sim_platform \<lparr> mss_opens := False \<rparr> \<rparr>"
  have h0: "save_raises sim_service bitmap_200x150 100 = None
      \<and> post sim_service \<lparr> req_license_key = ''KEY'', req_image = bitmap_200x150,
                           req_quality = 100, req_opponents = str_int 3 \<rparr> = Inr R0
      \<and> status_code R0 = 200
      \<and> body R0 = Inr (JDict [(''success'', JBool False),
                                (''error'', JStr ''quota exceeded'')])
      \<and> map_of [(''success'', JBool False), (''error'', JStr ''quota exceeded'')] ''success''
          = Some (JBool False)
      \<and> map_of [(''success'', JBool False), (''error'', JStr ''quota exceeded'')] ''error''
          = Some (JStr ''quota exceeded'')"
    by (simp add: sim_service_def R0_def)
  have h1: "save_raises S1 bitmap_200x150 100 = None
      \<and> post S1 \<lparr> req_license_key = ''KEY'', req_image = bitmap_200x150,
                  req_quality = 100, req_opponents = str_int 3 \<rparr>
          = Inl (Timeout ''read timed out'')"
    by (simp add: S1_def)
  have h2: "save_raises S2 bitmap_200x150 100 = None
      \<and> post S2 \<lparr> req_license_key = ''KEY'', req_image = bitmap_200x150,
                  req_quality = 100, req_opponents = str_int 3 \<rparr> = Inr R2
      \<and> status_code R2 \<noteq> 200"
    by (simp add: S2_def R2_def)
  have h3: "fst (capture_window MacWindowManager (tick_platform E) sim_window
        (outside sim_start)) = None"
    by (simp add: E_def sim_turn_def sim_start_def mac_capture_window_def
          capture_by_bounds_def sim_platform_def Let_def)
  have m2: "error_msg_of (\<lambda>v. []) R2 = ''quota exceeded''"
    by (simp add: error_msg_of_def R2_def dict_get_def)
  have 0: "analyze_screenshot (\<lambda>v. []) sim_service bitmap_200x150 3 ''KEY'' 100
        = from_error (JStr ''quota exceeded'')
      \<and> error_message (analyze_screenshot (\<lambda>v. []) sim_service bitmap_200x150 3 ''KEY'' 100)
        = JStr ''quota exceeded''
      \<and> win_rate (analyze_screenshot (\<lambda>v. []) sim_service bitmap_200x150 3 ''KEY'' 100)
        = JInt 0
      \<and> tie_rate (analyze_screenshot (\<lambda>v. []) sim_service bitmap_200x150 3 ''KEY'' 100)
        = JInt 0
      \<and> lose_rate (analyze_screenshot (\<lambda>v. []) sim_service bitmap_200x150 3 ''KEY'' 100)
        = JInt 0"
    using service_failure_shape
      [where srv = sim_service and img = bitmap_200x150 and q = 100 and key = "''KEY''"
         and n = 3 and r = R0 and str_py = "\<lambda>v. []"
         and d = "[(''success'', JBool False), (''error'', JStr ''quota exceeded'')]"]
      h0
    by blast
  have 1: "analyze_screenshot (\<lambda>v. []) S1 bitmap_200x150 3 ''KEY'' 100
     = (from_error (JStr ''Failed to capture window''))
         \<lparr> error_message := JStr ''API request timed out'' \<rparr>"
    using service_failure_shape
      [where srv = S1 and img = bitmap_200x150 and q = 100 and key = "''KEY''"
         and n = 3 and str_py = "\<lambda>v. []" and m = "''read timed out''"]
      h1
    by blast
  have 2: "analyze_screenshot (\<lambda>v. []) S2 bitmap_200x150 3 ''KEY'' 100
     = (from_error (JStr ''Failed to capture window''))
         \<lparr> error_message := JStr (error_msg_of (\<lambda>v. []) R2) \<rparr>"
    using service_failure_shape
      [where srv = S2 and img = bitmap_200x150 and q = 100 and key = "''KEY''"
         and n = 3 and str_py = "\<lambda>v. []" and r = R2]
      h2
    by blast
  have 3: "last_analysis (snd (tick (\<lambda>v. []) 1 MacWindowManager sim_window ''KEY'' 100 sim_start E))
     = from_error (JStr ''Failed to capture window'')"
    using service_failure_shape
      [where wm = MacWindowManager and e = E and window = sim_window and st = sim_start
         and str_py = "\<lambda>v. []" and T = 1 and key = "''KEY''" and q = 100]
      h3
    by blast
  from 2 have two: "analyze_screenshot (\<lambda>v. []) S2 bitmap_200x150 3 ''KEY'' 100
     = (from_error (JStr ''Failed to capture window''))
         \<lparr> error_message := JStr ''quota exceeded'' \<rparr>"
    unfolding m2 .
  from 0 1 two 3 show ?thesis
    unfolding S1_def S2_def R2_def E_def by blast
qed

section \<open>Window enumeration\<close>

lemma map_filter_append:
  "List.map_filter f (xs @ ys) = List.map_filter f xs @ List.map_filter f ys"
  by (simp add: List.map_filter_def)

lemma int_of_float_less_100: "int_of_float r < 100 \<longleftrightarrow> r < 100"
proof (cases "r \<ge> 0")
  case True
  then show ?thesis by (simp add: int_of_float_def floor_less_iff)
next
  case False
  then have "\<lceil>r\<rceil> \<le> 0" by (simp add: ceiling_le_iff)
  with False show ?thesis by (simp add: int_of_float_def)
qed

lemma bound_int_less_100:
  "bound_int v < 100 \<longleftrightarrow> (case v of None \<Rightarrow> 0 | Some r \<Rightarrow> r) < 100"
  by (cases v) (simp_all add: bound_int_def int_of_float_less_100)

lemma mac_window_None_iff:
  "mac_window c = None \<longleftrightarrow>
     ((kCGWindowName c = None \<or> kCGWindowName c = Some [])
        \<and> (kCGWindowOwnerName c = None \<or> kCGWindowOwnerName c = Some []))
     \<or> (case kCGWindowBounds c of None \<Rightarrow> 0
         | Some b \<Rightarrow> (case b_Width b of None \<Rightarrow> 0 | Some r \<Rightarrow> r)) < 100
     \<or> (case kCGWindowBounds c of None \<Rightarrow> 0
         | Some b \<Rightarrow> (case b_Height b of None \<Rightarrow> 0 | Some r \<Rightarrow> r)) < 100"
  by (auto simp: mac_window_def Let_def bound_int_less_100 split: option.splits)

lemma mac_window_Some:
  "mac_window c = Some win \<Longrightarrow>
     100 \<le> w_width win \<and> 100 \<le> w_height win \<and> w_title win \<noteq> []
     \<and> w_width win = bound_int (case kCGWindowBounds c of None \<Rightarrow> None | Some b \<Rightarrow> b_Width b)
     \<and> w_height win
         = bound_int (case kCGWindowBounds c of None \<Rightarrow> None | Some b \<Rightarrow> b_Height b)"
  by (auto simp: mac_window_def Let_def split: option.splits if_splits)

lemma set_map_filter:
  "y \<in> set (List.map_filter f xs) \<longleftrightarrow> (\<exists>x \<in> set xs. f x = Some y)"
  by (induction xs) (auto split: option.splits)

lemma wmctrl_line_title: "wmctrl_line line = Some win \<Longrightarrow> strip (w_title win) \<noteq> []"
  by (auto simp: wmctrl_line_def Let_def split: if_splits list.splits option.splits)

lemma split_ws_Nil: "split_ws n [] = []"
  by (cases n) simp_all

lemma wmctrl_line_desktop_minus_one:
  assumes "split_ws 8 line = wid # ''-1'' # rest"
  shows "wmctrl_line line = None"
  using assms
  by (auto simp: wmctrl_line_def Let_def split: list.splits)

lemma wmctrl_line_fields:
  assumes "split_ws 8 line = wid # desktop # x # y # w # h # hostname # t # ts"
    and "desktop \<noteq> ''-1''" and "strip (join '' '' (t # ts)) \<noteq> []"
    and "py_int x = Some xi" and "py_int y = Some yi"
    and "py_int w = Some wi" and "py_int h = Some hi"
  shows "wmctrl_line line
           = Some \<lparr> w_id = wid, w_title = join '' '' (t # ts),
                     w_x = xi, w_y = yi, w_width = wi, w_height = hi \<rparr>"
proof -
  from assms(1) have "line \<noteq> []"
    by (auto simp: split_ws_Nil)
  with assms show ?thesis
    by (simp add: wmctrl_line_def Let_def)
qed

text \<open>
  Claim C5, as stated for every platform. It does not hold on Linux, where no size
  threshold is applied: a window of 99 by 99 is listed.
\<close>

theorem linux_lists_small_window:
  "linux_get_windows ''wmctrl'' ''0x03a00007  0 10 20 99 99 host Poker''
     = [\<lparr> w_id = ''0x03a00007'', w_title = ''Poker'', w_x = 10, w_y = 20,
          w_width = 99, w_height = 99 \<rparr>]"
  by code_simp

text \<open>
  Claim C5, amended. On macOS the listing keeps the enumeration order and leaves out
  exactly the windows that have neither a name nor an owner, or whose width or height is
  below 100; so every listed window is at least 100 by 100 and has a title. On Linux no
  size threshold is applied: every listed window comes from a line of the \<^verbatim>\<open>wmctrl\<close>
  output and has a title that is not blank; a line whose desktop field is \<open>-1\<close> yields
  no window; and a line with eight or more fields, another desktop, a title that is not
  blank and integer geometry is listed with the width and height it carries, whatever
  they are.
\<close>

theorem mac_lists_windows_of_size:
  "mac_get_windows (before @ [c] @ after)
     = mac_get_windows before
       @ (case mac_window c of None \<Rightarrow> [] | Some win \<Rightarrow> [win])
       @ mac_get_windows after
   \<and> (mac_window c = None \<longleftrightarrow>
        ((kCGWindowName c = None \<or> kCGWindowName c = Some [])
           \<and> (kCGWindowOwnerName c = None \<or> kCGWindowOwnerName c = Some []))
        \<or> (case kCGWindowBounds c of None \<Rightarrow> 0
            | Some b \<Rightarrow> (case b_Width b of None \<Rightarrow> 0 | Some r \<Rightarrow> r)) < 100
        \<or> (case kCGWindowBounds c of None \<Rightarrow> 0
            | Some b \<Rightarrow> (case b_Height b of None \<Rightarrow> 0 | Some r \<Rightarrow> r)) < 100)
   \<and> (win \<in> set (mac_get_windows wl)
      \<longrightarrow> 100 \<le> w_width win \<and> 100 \<le> w_height win \<and> w_title win \<noteq> [])
   \<and> (lwin \<in> set (linux_get_windows tool stdout) \<longrightarrow> strip (w_title lwin) \<noteq> [])
   \<and> (lwin \<in> set (linux_get_windows tool stdout)
      \<longrightarrow> tool = ''wmctrl''
          \<and> (\<exists>l. l \<in> set (split_on (CHR 0x0A) (strip stdout)) \<and> wmctrl_line l = Some lwin))
   \<and> (split_ws 8 line = wid # ''-1'' # rest \<longrightarrow> wmctrl_line line = None)
   \<and> (line \<in> set (split_on (CHR 0x0A) (strip out))
        \<and> split_ws 8 line = wid # desktop # x # y # w # h # hostname # t # ts
        \<and> desktop \<noteq> ''-1'' \<and> strip (join '' '' (t # ts)) \<noteq> []
        \<and> py_int x = Some xi \<and> py_int y = Some yi
        \<and> py_int w = Some wi \<and> py_int h = Some hi
      \<longrightarrow> \<lparr> w_id = wid, w_title = join '' '' (t # ts),
            w_x = xi, w_y = yi, w_width = wi, w_height = hi \<rparr>
          \<in> set (linux_get_windows ''wmctrl'' out))"
proof (intro conjI impI)
  show "mac_get_windows (before @ [c] @ after)
     = mac_get_windows before
       @ (case mac_window c of None \<Rightarrow> [] | Some win \<Rightarrow> [win])
       @ mac_get_windows after"
    by (simp add: mac_get_windows_def map_filter_append)
       (simp add: List.map_filter_def split: option.split)
  show "mac_window c = None \<longleftrightarrow>
        ((kCGWindowName c = None \<or> kCGWindowName c = Some [])
           \<and> (kCGWindowOwnerName c = None \<or> kCGWindowOwnerName c = Some []))
        \<or> (case kCGWindowBounds c of None \<Rightarrow> 0
            | Some b \<Rightarrow> (case b_Width b of None \<Rightarrow> 0 | Some r \<Rightarrow> r)) < 100
        \<or> (case kCGWindowBounds c of None \<Rightarrow> 0
            | Some b \<Rightarrow> (case b_Height b of None \<Rightarrow> 0 | Some r \<Rightarrow> r)) < 100"
    by (rule mac_window_None_iff)
next
  assume "win \<in> set (mac_get_windows wl)"
  then obtain c' where "mac_window c' = Some win"
    by (auto simp: mac_get_windows_def set_map_filter)
  then have m: "100 \<le> w_width win \<and> 100 \<le> w_height win \<and> w_title win \<noteq> []"
    using mac_window_Some [of c' win] by blast
  from m show "100 \<le> w_width win" by blast
  from m show "100 \<le> w_height win" by blast
  from m show "w_title win \<noteq> []" by blast
next
  assume "lwin \<in> set (linux_get_windows tool stdout)"
  then obtain l where "wmctrl_line l = Some lwin"
    by (auto simp: linux_get_windows_def set_map_filter split: if_splits)
  then show "strip (w_title lwin) \<noteq> []"
    by (rule wmctrl_line_title)
next
  assume a: "lwin \<in> set (linux_get_windows tool stdout)"
  then show "tool = ''wmctrl''"
    by (auto simp: linux_get_windows_def split: if_splits)
  from a show "\<exists>l. l \<in> set (split_on (CHR 0x0A) (strip stdout)) \<and> wmctrl_line l = Some lwin"
    by (auto simp: linux_get_windows_def set_map_filter split: if_splits)
next
  assume "split_ws 8 line = wid # ''-1'' # rest"
  then show "wmctrl_line line = None"
    by (rule wmctrl_line_desktop_minus_one)
next
  assume a: "line \<in> set (split_on (CHR 0x0A) (strip out))
        \<and> split_ws 8 line = wid # desktop # x # y # w # h # hostname # t # ts
        \<and> desktop \<noteq> ''-1'' \<and> strip (join '' '' (t # ts)) \<noteq> []
        \<and> py_int x = Some xi \<and> py_int y = Some yi
        \<and> py_int w = Some wi \<and> py_int h = Some hi"
  then have "wmctrl_line line
      = Some \<lparr> w_id = wid, w_title = join '' '' (t # ts),
                w_x = xi, w_y = yi, w_width = wi, w_height = hi \<rparr>"
    by (intro wmctrl_line_fields) blast+
  with a show "\<lparr> w_id = wid, w_title = join '' '' (t # ts),
            w_x = xi, w_y = yi, w_width = wi, w_height = hi \<rparr>
          \<in> set (linux_get_windows ''wmctrl'' out)"
    by (auto simp: linux_get_windows_def set_map_filter)
qed

lemma str_int_7: "str_int 7 = ''7''"
  by code_simp

lemma mac_lists_100x100:
  "mac_get_windows
     [\<lparr> kCGWindowName = Some ''Table'', kCGWindowOwnerName = Some ''Poker'',
        kCGWindowBounds = Some \<lparr> b_X = Some 0, b_Y = Some 0,
                                 b_Width = Some 100, b_Height = Some 100 \<rparr>,
        kCGWindowNumber = Some 7 \<rparr>]
     = [\<lparr> w_id = ''7'', w_title = ''Poker: Table'', w_x = 0, w_y = 0,
          w_width = 100, w_height = 100 \<rparr>]"
  by (simp add: mac_get_windows_def mac_window_def bound_int_def int_of_float_def str_int_7)

theorem mac_lists_windows_of_size_witness:
  "mac_window \<lparr> kCGWindowName = Some ''Table'', kCGWindowOwnerName = Some ''Poker'',
        kCGWindowBounds = Some \<lparr> b_X = Some 0, b_Y = Some 0,
                                 b_Width = Some 99, b_Height = Some 500 \<rparr>,
        kCGWindowNumber = Some 5 \<rparr> = None
   \<and> mac_window \<lparr> kCGWindowName = Some ''Table'', kCGWindowOwnerName = Some ''Poker'',
        kCGWindowBounds = Some \<lparr> b_X = Some 0, b_Y = Some 0,
                                 b_Width = Some 500, b_Height = Some 99 \<rparr>,
        kCGWindowNumber = Some 6 \<rparr> = None
   \<and> mac_window \<lparr> kCGWindowName = None, kCGWindowOwnerName = Some [],
        kCGWindowBounds = Some \<lparr> b_X = Some 0, b_Y = Some 0,
                                 b_Width = Some 500, b_Height = Some 500 \<rparr>,
        kCGWindowNumber = Some 8 \<rparr> = None
   \<and> mac_window \<lparr> kCGWindowName = Some ''Table'', kCGWindowOwnerName = Some ''Poker'',
        kCGWindowBounds = Some \<lparr> b_X = Some 0, b_Y = Some 0,
                                 b_Width = Some 100, b_Height = Some 100 \<rparr>,
        kCGWindowNumber = Some 7 \<rparr> \<noteq> None
   \<and> mac_get_windows
       [\<lparr> kCGWindowName = Some ''Table'', kCGWindowOwnerName = Some ''Poker'',
          kCGWindowBounds = Some \<lparr> b_X = Some 0, b_Y = Some 0,
                                   b_Width = Some 99, b_Height = Some 500 \<rparr>,
          kCGWindowNumber = Some 5 \<rparr>,
        \<lparr> kCGWindowName = Some ''Table'', kCGWindowOwnerName = Some ''Poker'',
          kCGWindowBounds = Some \<lparr> b_X = Some 0, b_Y = Some 0,
                                   b_Width = Some 100, b_Height = Some 100 \<rparr>,
          kCGWindowNumber = Some 7 \<rparr>]
     = [\<lparr> w_id = ''7'', w_title = ''Poker: Table'', w_x = 0, w_y = 0,
          w_width = 100, w_height = 100 \<rparr>]
   \<and> (100 :: int) \<le> w_width \<lparr> w_id = ''7'', w_title = ''Poker: Table'', w_x = 0, w_y = 0,
          w_width = 100, w_height = 100 \<rparr>
   \<and> strip (w_title \<lparr> w_id = ''0x03a00007'', w_title = ''Poker'', w_x = 10, w_y = 20,
          w_width = 99, w_height = 99 \<rparr>) \<noteq> []
   \<and> wmctrl_line ''0x01200003 -1 0 0 1920 30 host panel'' = None
   \<and> \<lparr> w_id = ''0x03a00007'', w_title = ''Poker'', w_x = 10, w_y = 20,
          w_width = 99, w_height = 99 \<rparr>
       \<in> set (linux_get_windows ''wmctrl'' ''0x03a00007  0 10 20 99 99 host Poker'')"
proof -
  define c99w where "c99w = \<lparr> kCGWindowName = Some ''Table'',
        kCGWindowOwnerName = Some ''Poker'',
        kCGWindowBounds = Some \<lparr> b_X = Some 0, b_Y = Some 0,
                                 b_Width = Some 99, b_Height = Some 500 \<rparr>,
        kCGWindowNumber = Some 5 \<rparr>"
  define c99h where "c99h = \<lparr> kCGWindowName = Some ''Table'',
        kCGWindowOwnerName = Some ''Poker'',
        kCGWindowBounds = Some \<lparr> b_X = Some 0, b_Y = Some 0,
                                 b_Width = Some 500, b_Height = Some 99 \<rparr>,
        kCGWindowNumber = Some 6 \<rparr>"
  define cnone where "cnone = \<lparr> kCGWindowName = None, kCGWindowOwnerName = Some [],
        kCGWindowBounds = Some \<lparr> b_X = Some 0, b_Y = Some 0,
                                 b_Width = Some 500, b_Height = Some 500 \<rparr>,
        kCGWindowNumber = Some 8 \<rparr>"
  define c100 where "c100 = \<lparr> kCGWindowName = Some ''Table'',
        kCGWindowOwnerName = Some ''Poker'',
        kCGWindowBounds = Some \<lparr> b_X = Some 0, b_Y = Some 0,
                                 b_Width = Some 100, b_Height = Some 100 \<rparr>,
        kCGWindowNumber = Some 7 \<rparr>"
  define W where "W = \<lparr> w_id = ''7'', w_title = ''Poker: Table'', w_x = 0, w_y = 0,
          w_width = 100, w_height = 100 \<rparr>"
  define L where "L = \<lparr> w_id = ''0x03a00007'', w_title = ''Poker'', w_x = 10, w_y = 20,
          w_width = 99, w_height = 99 \<rparr>"
  have one: "mac_get_windows [c100] = [W]"
    unfolding c100_def W_def by (rule mac_lists_100x100)
  have lin: "linux_get_windows ''wmctrl'' ''0x03a00007  0 10 20 99 99 host Poker'' = [L]"
    unfolding L_def by code_simp
  have 1: "mac_window c99w = None"
    using mac_lists_windows_of_size [where c = c99w, THEN conjunct2, THEN conjunct1]
    by (simp add: c99w_def)
  have 2: "mac_window c99h = None"
    using mac_lists_windows_of_size [where c = c99h, THEN conjunct2, THEN conjunct1]
    by (simp add: c99h_def)
  have 3: "mac_window cnone = None"
    using mac_lists_windows_of_size [where c = cnone, THEN conjunct2, THEN conjunct1]
    by (simp add: cnone_def)
  have 4: "mac_window c100 \<noteq> None"
    using mac_lists_windows_of_size [where c = c100, THEN conjunct2, THEN conjunct1]
    by (simp add: c100_def)
  have 5: "mac_get_windows [c99w, c100] = [W]"
    using mac_lists_windows_of_size
      [where before = "[]" and c = c99w and after = "[c100]", THEN conjunct1]
    by (simp add: 1 one) (simp add: mac_get_windows_def)
  have 6: "100 \<le> w_width W"
    using mac_lists_windows_of_size [where win = W and wl = "[c100]"]
    by (simp add: one)
  have 7: "strip (w_title L) \<noteq> []"
    using mac_lists_windows_of_size
      [where lwin = L and tool = "''wmctrl''"
         and stdout = "''0x03a00007  0 10 20 99 99 host Poker''"]
    by (simp add: lin)
  have sticky: "split_ws 8 ''0x01200003 -1 0 0 1920 30 host panel''
      = ''0x01200003'' # ''-1'' # [''0'', ''0'', ''1920'', ''30'', ''host'', ''panel'']"
    by code_simp
  have 8: "wmctrl_line ''0x01200003 -1 0 0 1920 30 host panel'' = None"
    using mac_lists_windows_of_size
      [where line = "''0x01200003 -1 0 0 1920 30 host panel''" and wid = "''0x01200003''"
         and rest = "[''0'', ''0'', ''1920'', ''30'', ''host'', ''panel'']",
       THEN conjunct2, THEN conjunct2, THEN conjunct2, THEN conjunct2, THEN conjunct2,
       THEN conjunct1]
      sticky
    by blast
  have ln: "''0x03a00007  0 10 20 99 99 host Poker''
      \<in> set (split_on (CHR 0x0A) (strip ''0x03a00007  0 10 20 99 99 host Poker''))"
    by code_simp
  have fs: "split_ws 8 ''0x03a00007  0 10 20 99 99 host Poker''
      = ''0x03a00007'' # ''0'' # ''10'' # ''20'' # ''99'' # ''99'' # ''host'' # ''Poker'' # []"
    by code_simp
  have ds: "''0'' \<noteq> ''-1''" by simp
  have tl: "strip (join '' '' (''Poker'' # [])) \<noteq> []" by code_simp
  have px: "py_int ''10'' = Some 10" by code_simp
  have py: "py_int ''20'' = Some 20" by code_simp
  have pw: "py_int ''99'' = Some 99" by code_simp
  have 9: "\<lparr> w_id = ''0x03a00007'', w_title = join '' '' (''Poker'' # []),
            w_x = 10, w_y = 20, w_width = 99, w_height = 99 \<rparr>
       \<in> set (linux_get_windows ''wmctrl'' ''0x03a00007  0 10 20 99 99 host Poker'')"
    using mac_lists_windows_of_size
      [where line = "''0x03a00007  0 10 20 99 99 host Poker''"
         and out = "''0x03a00007  0 10 20 99 99 host Poker''"
         and wid = "''0x03a00007''" and desktop = "''0''" and x = "''10''" and y = "''20''"
         and w = "''99''" and h = "''99''" and hostname = "''host''" and t = "''Poker''"
         and ts = "[]" and xi = 10 and yi = 20 and wi = 99 and hi = 99,
       THEN conjunct2, THEN conjunct2, THEN conjunct2, THEN conjunct2, THEN conjunct2,
       THEN conjunct2]
      ln fs ds tl px py pw
    by blast
  have nine: "L \<in> set (linux_get_windows ''wmctrl'' ''0x03a00007  0 10 20 99 99 host Poker'')"
    using 9 by (simp add: L_def)
  from 1 2 3 4 5 6 7 8 nine show ?thesis
    unfolding c99w_def c99h_def cnone_def c100_def W_def L_def by blast
qed

section \<open>Start-up without a window mechanism\<close>

lemma detect_tool_none:
  assumes "probe ''wmctrl'' \<noteq> RunOk" and "probe ''xdotool'' \<noteq> RunOk"
  shows "detect_tool probe [''wmctrl'', ''xdotool''] w
           = (None, emit (Run [''xdotool'', ''--version''])
                      (emit (Run [''wmctrl'', ''--version'']) w))"
  using assms by (simp add: Let_def split: checked_run.split)

lemma linux_init_none:
  assumes "probe ''wmctrl'' \<noteq> RunOk" and "probe ''xdotool'' \<noteq> RunOk"
  shows "linux_init probe w
           = (Inl 1,
              w \<lparr> events := events w
                    @ [Run [''wmctrl'', ''--version''],
                       Run [''xdotool'', ''--version''],
                       Print (''Error: Neither '' @ [CHR 0x27] @ ''wmctrl'' @ [CHR 0x27]
                              @ '' nor '' @ [CHR 0x27] @ ''xdotool'' @ [CHR 0x27]
                              @ '' found.''),
                       Print ''Install with: sudo apt install wmctrl''] \<rparr>)"
  unfolding linux_init_def detect_tool_none [OF assms] by (simp add: emit_def)

lemma main_no_scan_on_exit:
  "fst (main str_py h w) = SysExit n \<Longrightarrow> fst (snd (main str_py h w)) = None"
  by (auto simp: main_def Let_def split: prod.splits sum.splits option.splits)

text \<open>
  Claim C9. When the host offers no window mechanism at start-up, the process reports it
  and ends with \<^verbatim>\<open>sys.exit(1)\<close> before the loop is reached:
  \<^item> on Linux, when neither \<^verbatim>\<open>wmctrl\<close> nor \<^verbatim>\<open>xdotool\<close> answers its probe, each tool is
    probed once, the two lines of the error are printed and the process exits with 1;
  \<^item> on macOS, when Quartz cannot be imported, the error is printed and the process
    exits with 1;
  \<^item> the same holds when the tools are missing at the second creation of the manager,
    after the window was selected;
  \<^item> in each case, and whenever the process ends through \<^verbatim>\<open>sys.exit\<close>, no scan state
    exists: the loop was never started.
\<close>

theorem no_window_mechanism_is_fatal:
  "(get_license_key (license h) w = (Inr license_key, w1)
      \<and> system h \<noteq> ''Darwin''
      \<and> probe_select h ''wmctrl'' \<noteq> RunOk \<and> probe_select h ''xdotool'' \<noteq> RunOk
    \<longrightarrow> main str_py h w
          = (SysExit 1, None,
             w1 \<lparr> events := events w1
                    @ [Run [''wmctrl'', ''--version''],
                       Run [''xdotool'', ''--version''],
                       Print (''Error: Neither '' @ [CHR 0x27] @ ''wmctrl'' @ [CHR 0x27]
                              @ '' nor '' @ [CHR 0x27] @ ''xdotool'' @ [CHR 0x27]
                              @ '' found.''),
                       Print ''Install with: sudo apt install wmctrl''] \<rparr>))
   \<and> (get_license_key (license h) w = (Inr license_key, w1)
        \<and> system h = ''Darwin'' \<and> \<not> quartz_available h
      \<longrightarrow> main str_py h w
            = (SysExit 1, None,
               w1 \<lparr> events := events w1
                      @ [Print ''Error: PyObjC not found. Install with: pip install pyobjc-framework-Quartz''] \<rparr>))
   \<and> (get_license_key (license h) w = (Inr license_key, w1)
        \<and> select_window h w1 = (Inr (Some window), w2)
        \<and> system h \<noteq> ''Darwin''
        \<and> probe_main h ''wmctrl'' \<noteq> RunOk \<and> probe_main h ''xdotool'' \<noteq> RunOk
      \<longrightarrow> main str_py h w
            = (SysExit 1, None,
               w2 \<lparr> events := events w2
                      @ [Sleep 2,
                         Run [''wmctrl'', ''--version''],
                         Run [''xdotool'', ''--version''],
                         Print (''Error: Neither '' @ [CHR 0x27] @ ''wmctrl'' @ [CHR 0x27]
                                @ '' nor '' @ [CHR 0x27] @ ''xdotool'' @ [CHR 0x27]
                                @ '' found.''),
                         Print ''Install with: sudo apt install wmctrl''] \<rparr>))
   \<and> (fst (main str_py h w) = SysExit n \<longrightarrow> fst (snd (main str_py h w)) = None)"
proof (intro conjI impI)
  assume a: "get_license_key (license h) w = (Inr license_key, w1)
      \<and> system h \<noteq> ''Darwin''
      \<and> probe_select h ''wmctrl'' \<noteq> RunOk \<and> probe_select h ''xdotool'' \<noteq> RunOk"
  then have "select_window h w1
      = (Inl (SysExit 1),
         w1 \<lparr> events := events w1
                    @ [Run [''wmctrl'', ''--version''],
                       Run [''xdotool'', ''--version''],
                       Print (''Error: Neither '' @ [CHR 0x27] @ ''wmctrl'' @ [CHR 0x27]
                              @ '' nor '' @ [CHR 0x27] @ ''xdotool'' @ [CHR 0x27]
                              @ '' found.''),
                       Print ''Install with: sudo apt install wmctrl''] \<rparr>)"
    by (simp add: select_window_def get_window_manager_def linux_init_none)
  with a show "main str_py h w
          = (SysExit 1, None,
             w1 \<lparr> events := events w1
                    @ [Run [''wmctrl'', ''--version''],
                       Run [''xdotool'', ''--version''],
                       Print (''Error: Neither '' @ [CHR 0x27] @ ''wmctrl'' @ [CHR 0x27]
                              @ '' nor '' @ [CHR 0x27] @ ''xdotool'' @ [CHR 0x27]
                              @ '' found.''),
                       Print ''Install with: sudo apt install wmctrl''] \<rparr>)"
    by (simp add: main_def)
next
  assume a: "get_license_key (license h) w = (Inr license_key, w1)
        \<and> system h = ''Darwin'' \<and> \<not> quartz_available h"
  then have "select_window h w1
      = (Inl (SysExit 1),
         w1 \<lparr> events := events w1
                @ [Print ''Error: PyObjC not found. Install with: pip install pyobjc-framework-Quartz''] \<rparr>)"
    by (simp add: select_window_def get_window_manager_def emit_def)
  with a show "main str_py h w
            = (SysExit 1, None,
               w1 \<lparr> events := events w1
                      @ [Print ''Error: PyObjC not found. Install with: pip install pyobjc-framework-Quartz''] \<rparr>)"
    by (simp add: main_def)
next
  assume a: "get_license_key (license h) w = (Inr license_key, w1)
        \<and> select_window h w1 = (Inr (Some window), w2)
        \<and> system h \<noteq> ''Darwin''
        \<and> probe_main h ''wmctrl'' \<noteq> RunOk \<and> probe_main h ''xdotool'' \<noteq> RunOk"
  then have "get_window_manager (system h) (probe_main h) (emit (Sleep 2) w2)
      = (Inl 1,
         w2 \<lparr> events := events w2
                      @ [Sleep 2,
                         Run [''wmctrl'', ''--version''],
                         Run [''xdotool'', ''--version''],
                         Print (''Error: Neither '' @ [CHR 0x27] @ ''wmctrl'' @ [CHR 0x27]
                                @ '' nor '' @ [CHR 0x27] @ ''xdotool'' @ [CHR 0x27]
                                @ '' found.''),
                         Print ''Install with: sudo apt install wmctrl''] \<rparr>)"
    by (simp add: get_window_manager_def linux_init_none emit_def)
  with a show "main str_py h w
            = (SysExit 1, None,
               w2 \<lparr> events := events w2
                      @ [Sleep 2,
                         Run [''wmctrl'', ''--version''],
                         Run [''xdotool'', ''--version''],
                         Print (''Error: Neither '' @ [CHR 0x27] @ ''wmctrl'' @ [CHR 0x27]
                                @ '' nor '' @ [CHR 0x27] @ ''xdotool'' @ [CHR 0x27]
                                @ '' found.''),
                         Print ''Install with: sudo apt install wmctrl''] \<rparr>)"
    by (simp add: main_def)
next
  assume "fst (main str_py h w) = SysExit n"
  then show "fst (snd (main str_py h w)) = None"
    by (rule main_no_scan_on_exit)
qed

lemma sim_license_key:
  "get_license_key (license (h \<lparr> license := license sim_host \<rparr>)) w = (Inr ''KEY-123'', w)"
  by (simp add: get_license_key_def sim_host_def strip_def is_space_def)

lemma sim_wmctrl_listing:
  "linux_get_windows ''wmctrl'' ''0x03a00007  0 100 80 800 600 host Poker'' = [sim_window]"
  unfolding sim_window_def by code_simp

theorem no_window_mechanism_is_fatal_witness:
  "main (\<lambda>v. []) sim_host empty_world
     = (SysExit 1, None,
        \<lparr> files = {},
          events = [Run [''wmctrl'', ''--version''],
                    Run [''xdotool'', ''--version''],
                    Print (''Error: Neither '' @ [CHR 0x27] @ ''wmctrl'' @ [CHR 0x27]
                           @ '' nor '' @ [CHR 0x27] @ ''xdotool'' @ [CHR 0x27] @ '' found.''),
                    Print ''Install with: sudo apt install wmctrl''] \<rparr>)
   \<and> main (\<lambda>v. []) (sim_host \<lparr> system := ''Darwin'' \<rparr>) empty_world
     = (SysExit 1, None,
        \<lparr> files = {},
          events = [Print ''Error: PyObjC not found. Install with: pip install pyobjc-framework-Quartz''] \<rparr>)
   \<and> main (\<lambda>v. [])
       (sim_host \<lparr> probe_select := (\<lambda>tool. RunOk),
                   wmctrl_stdout := ''0x03a00007  0 100 80 800 600 host Poker'' \<rparr>)
       empty_world
     = (SysExit 1, None,
        \<lparr> files = {},
          events = [Run [''wmctrl'', ''--version''],
                    Run [''wmctrl'', ''-l'', ''-G''],
                    Sleep 2,
                    Run [''wmctrl'', ''--version''],
                    Run [''xdotool'', ''--version''],
                    Print (''Error: Neither '' @ [CHR 0x27] @ ''wmctrl'' @ [CHR 0x27]
                           @ '' nor '' @ [CHR 0x27] @ ''xdotool'' @ [CHR 0x27] @ '' found.''),
                    Print ''Install with: sudo apt install wmctrl''] \<rparr>)
   \<and> fst (snd (main (\<lambda>v. []) sim_host empty_world)) = None"
proof -
  define D where "D = sim_host \<lparr> system := ''Darwin'' \<rparr>"
  define H where "H = sim_host \<lparr> probe_select := (\<lambda>tool. RunOk),
                   wmctrl_stdout := ''0x03a00007  0 100 80 800 600 host Poker'' \<rparr>"
  have k0: "get_license_key (license sim_host) empty_world = (Inr ''KEY-123'', empty_world)"
    using sim_license_key [of sim_host empty_world] by simp
  have kD: "get_license_key (license D) empty_world = (Inr ''KEY-123'', empty_world)"
    using sim_license_key [of D empty_world] by (simp add: D_def)
  have kH: "get_license_key (license H) empty_world = (Inr ''KEY-123'', empty_world)"
    using sim_license_key [of H empty_world] by (simp add: H_def)
  have h0: "get_license_key (license sim_host) empty_world = (Inr ''KEY-123'', empty_world)
      \<and> system sim_host \<noteq> ''Darwin''
      \<and> probe_select sim_host ''wmctrl'' \<noteq> RunOk
      \<and> probe_select sim_host ''xdotool'' \<noteq> RunOk"
    unfolding k0 by (simp add: sim_host_def)
  have hD: "get_license_key (license D) empty_world = (Inr ''KEY-123'', empty_world)
      \<and> system D = ''Darwin'' \<and> \<not> quartz_available D"
    unfolding kD by (simp add: D_def sim_host_def)
  have sel: "select_window H empty_world
      = (Inr (Some sim_window),
         \<lparr> files = {},
           events = [Run [''wmctrl'', ''--version''], Run [''wmctrl'', ''-l'', ''-G'']] \<rparr>)"
    by (simp add: select_window_def get_window_manager_def linux_init_def H_def sim_host_def
          sim_wmctrl_listing py_index_def emit_def empty_world_def)
  have hH: "get_license_key (license H) empty_world = (Inr ''KEY-123'', empty_world)
      \<and> select_window H empty_world
          = (Inr (Some sim_window),
             \<lparr> files = {},
               events = [Run [''wmctrl'', ''--version''], Run [''wmctrl'', ''-l'', ''-G'']] \<rparr>)
      \<and> system H \<noteq> ''Darwin''
      \<and> probe_main H ''wmctrl'' \<noteq> RunOk \<and> probe_main H ''xdotool'' \<noteq> RunOk"
    unfolding kH sel by (simp add: H_def sim_host_def)
  have 1: "main (\<lambda>v. []) sim_host empty_world
     = (SysExit 1, None,
        empty_world \<lparr> events := events empty_world
          @ [Run [''wmctrl'', ''--version''],
             Run [''xdotool'', ''--version''],
             Print (''Error: Neither '' @ [CHR 0x27] @ ''wmctrl'' @ [CHR 0x27]
                    @ '' nor '' @ [CHR 0x27] @ ''xdotool'' @ [CHR 0x27] @ '' found.''),
             Print ''Install with: sudo apt install wmctrl''] \<rparr>)"
    using no_window_mechanism_is_fatal
      [where h = sim_host and w = empty_world and ?w1.0 = empty_world
         and license_key = "''KEY-123''" and str_py = "\<lambda>v. []"]
      h0
    by blast
  have 2: "main (\<lambda>v. []) D empty_world
     = (SysExit 1, None,
        empty_world \<lparr> events := events empty_world
          @ [Print ''Error: PyObjC not found. Install with: pip install pyobjc-framework-Quartz''] \<rparr>)"
    using no_window_mechanism_is_fatal
      [where h = D and w = empty_world and ?w1.0 = empty_world
         and license_key = "''KEY-123''" and str_py = "\<lambda>v. []"]
      hD
    by blast
  have 3: "main (\<lambda>v. []) H empty_world
     = (SysExit 1, None,
        \<lparr> files = {},
          events = [Run [''wmctrl'', ''--version''], Run [''wmctrl'', ''-l'', ''-G'']] \<rparr>
        \<lparr> events := events
            \<lparr> files = {},
              events = [Run [''wmctrl'', ''--version''], Run [''wmctrl'', ''-l'', ''-G'']] \<rparr>
          @ [Sleep 2,
             Run [''wmctrl'', ''--version''],
             Run [''xdotool'', ''--version''],
             Print (''Error: Neither '' @ [CHR 0x27] @ ''wmctrl'' @ [CHR 0x27]
                    @ '' nor '' @ [CHR 0x27] @ ''xdotool'' @ [CHR 0x27] @ '' found.''),
             Print ''Install with: sudo apt install wmctrl''] \<rparr>)"
    using no_window_mechanism_is_fatal
      [where h = H and w = empty_world and ?w1.0 = empty_world
         and ?w2.0 = "\<lparr> files = {},
           events = [Run [''wmctrl'', ''--version''], Run [''wmctrl'', ''-l'', ''-G'']] \<rparr>"
         and window = sim_window
         and license_key = "''KEY-123''" and str_py = "\<lambda>v. []"]
      hH
    by blast
  have 4: "fst (snd (main (\<lambda>v. []) sim_host empty_world)) = None"
    unfolding 1 by simp
  from 1 2 3 4 show ?thesis
    unfolding D_def H_def by (simp add: empty_world_def)
qed

section \<open>A display that cannot be built\<close>

lemma string_failures_are_displayed:
  "last_analysis (snd (tick str_py T wm window key q st e)) = from_error (JStr m) \<Longrightarrow>
   fst (tick str_py T wm window key q st e) = None"
  by (simp add: fst_tick build_display_failure_message)

lemma capture_failure_is_displayed:
  "fst (capture_window wm (tick_platform e) window (outside st)) = None \<Longrightarrow>
   fst (tick str_py T wm window key q st e) = None"
  by (rule string_failures_are_displayed [where m = "''Failed to capture window''"])
     (simp add: last_analysis_tick)

lemma sim_linux_capture_from:
  "files w = {} \<Longrightarrow>
   linux_capture_window ''wmctrl'' sim_platform sim_window w
     = (Some bitmap_200x150,
        \<lparr> files = {},
          events = events w
            @ [Enter ImportTool,
               Run [''import'', ''-window'', ''0x03a00007'', ''/tmp/tmpa.png''],
               Enter Scrot,
               Run [''wmctrl'', ''-i'', ''-a'', ''0x03a00007''],
               Sleep (2 / 10),
               Run [''scrot'', ''-u'', ''/tmp/tmpb.png'']] \<rparr>)"
  by (simp add: linux_capture_window_def method_import_def method_scrot_def focus_argv_def
        helper_tool_def sim_platform_def sim_window_def emit_def unlink_def)

lemma dict_error_analyze:
  "analyze_screenshot str_py dict_error_service img n key q
     = from_error (JDict [(''code'', JInt 5)])"
  by (simp add: analyze_screenshot_def dict_error_service_def from_api_response_def
        dict_get_def)

lemma dict_error_display:
  "build_display (from_error (JDict [(''code'', JInt 5)])) title n i = Some ''AttributeError''"
  by (simp add: build_display_def from_error_def format_cards_def
        create_hand_probabilities_table_def create_win_rate_display_def POKER_HANDS_def
        table_row_def dict_get_def)

lemma dict_error_tick:
  "files (outside st) = {} \<Longrightarrow>
   tick str_py T (LinuxWindowManager ''wmctrl'') sim_window key q st dict_error_turn
     = (Some ''AttributeError'',
        \<lparr> iteration = iteration st + 1,
          last_analysis = from_error (JDict [(''code'', JInt 5)]),
          outside =
            \<lparr> files = {},
              events = events (outside st)
                @ [Enter ImportTool,
                   Run [''import'', ''-window'', ''0x03a00007'', ''/tmp/tmpa.png''],
                   Enter Scrot,
                   Run [''wmctrl'', ''-i'', ''-a'', ''0x03a00007''],
                   Sleep (2 / 10),
                   Run [''scrot'', ''-u'', ''/tmp/tmpb.png'']] \<rparr> \<rparr>)"
  by (simp add: tick_def Let_def dict_error_turn_def sim_turn_def sim_linux_capture_from
        dict_error_analyze dict_error_display)

text \<open>
  Claim C6 says that no failure of a turn leaves the loop. The code lets one out: when
  the service answers with status 200 and the body
  \<^verbatim>\<open>{"success": false, "error": {"code": 5}}\<close>, the result carries the dict as its message,
  \<^verbatim>\<open>create_win_rate_display\<close> passes it to \<^verbatim>\<open>Text\<close>, and the \<^verbatim>\<open>AttributeError\<close> is not
  caught: the first turn displays nothing, the second turn does not run, and \<^verbatim>\<open>main\<close>
  ends with the exception.
\<close>

theorem error_dict_leaves_the_loop:
  "scan_loop (\<lambda>v. []) 1 (LinuxWindowManager ''wmctrl'') sim_window ''KEY'' 100 sim_start
       [dict_error_turn, sim_turn 2]
     = (Some ''AttributeError'',
        \<lparr> iteration = 1,
          last_analysis = from_error (JDict [(''code'', JInt 5)]),
          outside =
            \<lparr> files = {},
              events = [Enter ImportTool,
                        Run [''import'', ''-window'', ''0x03a00007'', ''/tmp/tmpa.png''],
                        Enter Scrot,
                        Run [''wmctrl'', ''-i'', ''-a'', ''0x03a00007''],
                        Sleep (2 / 10),
                        Run [''scrot'', ''-u'', ''/tmp/tmpb.png'']] \<rparr> \<rparr>)
   \<and> main (\<lambda>v. [])
       (sim_host \<lparr> probe_select := (\<lambda>tool. RunOk), probe_main := (\<lambda>tool. RunOk),
                   wmctrl_stdout := ''0x03a00007  0 100 80 800 600 host Poker'',
                   turns := [dict_error_turn, sim_turn 2] \<rparr>)
       empty_world
     = (Uncaught ''AttributeError'',
        Some \<lparr> iteration = 1,
               last_analysis = from_error (JDict [(''code'', JInt 5)]),
               outside =
                 \<lparr> files = {},
                   events = [Run [''wmctrl'', ''--version''],
                             Run [''wmctrl'', ''-l'', ''-G''],
                             Sleep 2,
                             Run [''wmctrl'', ''--version''],
                             StartListener,
                             Enter ImportTool,
                             Run [''import'', ''-window'', ''0x03a00007'', ''/tmp/tmpa.png''],
                             Enter Scrot,
                             Run [''wmctrl'', ''-i'', ''-a'', ''0x03a00007''],
                             Sleep (2 / 10),
                             Run [''scrot'', ''-u'', ''/tmp/tmpb.png'']] \<rparr> \<rparr>,
        \<lparr> files = {},
          events = [Run [''wmctrl'', ''--version''],
                    Run [''wmctrl'', ''-l'', ''-G''],
                    Sleep 2,
                    Run [''wmctrl'', ''--version''],
                    StartListener,
                    Enter ImportTool,
                    Run [''import'', ''-window'', ''0x03a00007'', ''/tmp/tmpa.png''],
                    Enter Scrot,
                    Run [''wmctrl'', ''-i'', ''-a'', ''0x03a00007''],
                    Sleep (2 / 10),
                    Run [''scrot'', ''-u'', ''/tmp/tmpb.png'']] \<rparr>)"
proof (rule conjI)
  have f: "files (outside sim_start) = {}"
    by (simp add: sim_start_def empty_world_def)
  show "scan_loop (\<lambda>v. []) 1 (LinuxWindowManager ''wmctrl'') sim_window ''KEY'' 100 sim_start
       [dict_error_turn, sim_turn 2]
     = (Some ''AttributeError'',
        \<lparr> iteration = 1,
          last_analysis = from_error (JDict [(''code'', JInt 5)]),
          outside =
            \<lparr> files = {},
              events = [Enter ImportTool,
                        Run [''import'', ''-window'', ''0x03a00007'', ''/tmp/tmpa.png''],
                        Enter Scrot,
                        Run [''wmctrl'', ''-i'', ''-a'', ''0x03a00007''],
                        Sleep (2 / 10),
                        Run [''scrot'', ''-u'', ''/tmp/tmpb.png'']] \<rparr> \<rparr>)"
    by (simp add: dict_error_tick [OF f]) (simp add: sim_start_def empty_world_def)
next
  define H where "H = sim_host \<lparr> probe_select := (\<lambda>tool. RunOk),
                   probe_main := (\<lambda>tool. RunOk),
                   wmctrl_stdout := ''0x03a00007  0 100 80 800 600 host Poker'',
                   turns := [dict_error_turn, sim_turn 2] \<rparr>"
  have k: "get_license_key (license H) empty_world = (Inr ''KEY-123'', empty_world)"
    using sim_license_key [of H empty_world] by (simp add: H_def)
  have sel: "select_window H empty_world
      = (Inr (Some sim_window),
         \<lparr> files = {},
           events = [Run [''wmctrl'', ''--version''], Run [''wmctrl'', ''-l'', ''-G'']] \<rparr>)"
    by (simp add: select_window_def get_window_manager_def linux_init_def H_def sim_host_def
          sim_wmctrl_listing py_index_def emit_def empty_world_def)
  have wm: "get_window_manager (system H) (probe_main H)
        \<lparr> files = {},
          events = [Run [''wmctrl'', ''--version''], Run [''wmctrl'', ''-l'', ''-G''],
                    Sleep 2] \<rparr>
      = (Inr (LinuxWindowManager ''wmctrl''),
         \<lparr> files = {},
           events = [Run [''wmctrl'', ''--version''], Run [''wmctrl'', ''-l'', ''-G''],
                     Sleep 2, Run [''wmctrl'', ''--version'']] \<rparr>)"
    by (simp add: get_window_manager_def linux_init_def H_def sim_host_def emit_def)
  have q: "get_image_quality (quality_get H) = 100"
    by (simp add: get_image_quality_def H_def sim_host_def DEFAULT_IMAGE_QUALITY_def)
  have t: "turns H = [dict_error_turn, sim_turn 2]"
    by (simp add: H_def)
  show "main (\<lambda>v. [])
       (sim_host \<lparr> probe_select := (\<lambda>tool. RunOk), probe_main := (\<lambda>tool. RunOk),
                   wmctrl_stdout := ''0x03a00007  0 100 80 800 600 host Poker'',
                   turns := [dict_error_turn, sim_turn 2] \<rparr>)
       empty_world
     = (Uncaught ''AttributeError'',
        Some \<lparr> iteration = 1,
               last_analysis = from_error (JDict [(''code'', JInt 5)]),
               outside =
                 \<lparr> files = {},
                   events = [Run [''wmctrl'', ''--version''],
                             Run [''wmctrl'', ''-l'', ''-G''],
                             Sleep 2,
                             Run [''wmctrl'', ''--version''],
                             StartListener,
                             Enter ImportTool,
                             Run [''import'', ''-window'', ''0x03a00007'', ''/tmp/tmpa.png''],
                             Enter Scrot,
                             Run [''wmctrl'', ''-i'', ''-a'', ''0x03a00007''],
                             Sleep (2 / 10),
                             Run [''scrot'', ''-u'', ''/tmp/tmpb.png'']] \<rparr> \<rparr>,
        \<lparr> files = {},
          events = [Run [''wmctrl'', ''--version''],
                    Run [''wmctrl'', ''-l'', ''-G''],
                    Sleep 2,
                    Run [''wmctrl'', ''--version''],
                    StartListener,
                    Enter ImportTool,
                    Run [''import'', ''-window'', ''0x03a00007'', ''/tmp/tmpa.png''],
                    Enter Scrot,
                    Run [''wmctrl'', ''-i'', ''-a'', ''0x03a00007''],
                    Sleep (2 / 10),
                    Run [''scrot'', ''-u'', ''/tmp/tmpb.png'']] \<rparr>)"
    unfolding H_def [symmetric]
    by (simp add: main_def k sel wm q t dict_error_tick emit_def)
qed

end
